theory Spec2Isabelle
  imports Complex_Main "HOL-Library.Signed_Division"
begin

section \<open>JavaScript values used by the wallet and currency code\<close>

text \<open>
  A JavaScript \<^verbatim>\<open>number\<close> is either \<^verbatim>\<open>NaN\<close>, one of the two infinities, or a finite
  value. Finite values are embedded in the reals: every double is a real, and the
  comparisons of the language (\<^verbatim>\<open>>=\<close>, \<^verbatim>\<open>>\<close>, \<^verbatim>\<open>===\<close>) are the comparisons of the
  values, with every comparison against \<^verbatim>\<open>NaN\<close> false. The zero \<open>Num 0\<close> stands for both
  \<^verbatim>\<open>+0\<close> and \<^verbatim>\<open>-0\<close>, which \<^verbatim>\<open>===\<close> identifies. Rounding arithmetic is not part of the
  model: multiplication and division on numbers are passed in (\<open>float_ops\<close>).
\<close>

datatype js_number = NaN | NegInfinity | Num real | PosInfinity

fun isFinite :: "js_number \<Rightarrow> bool" where
  "isFinite (Num x) = True"
| "isFinite NaN = False"
| "isFinite NegInfinity = False"
| "isFinite PosInfinity = False"

text \<open>\<^verbatim>\<open>a > b\<close>, \<^verbatim>\<open>a >= b\<close> and \<^verbatim>\<open>a <= b\<close> on numbers.\<close>

fun js_gt :: "js_number \<Rightarrow> js_number \<Rightarrow> bool" where
  "js_gt NaN b = False"
| "js_gt a NaN = False"
| "js_gt NegInfinity b = False"
| "js_gt a NegInfinity = True"
| "js_gt PosInfinity PosInfinity = False"
| "js_gt PosInfinity (Num y) = True"
| "js_gt (Num x) PosInfinity = False"
| "js_gt (Num x) (Num y) = (y < x)"

definition js_ge :: "js_number \<Rightarrow> js_number \<Rightarrow> bool" where
  "js_ge a b = (a \<noteq> NaN \<and> b \<noteq> NaN \<and> (a = b \<or> js_gt a b))"

definition js_le :: "js_number \<Rightarrow> js_number \<Rightarrow> bool" where
  "js_le a b = js_ge b a"

record float_ops =
  fmul :: "js_number \<Rightarrow> js_number \<Rightarrow> js_number"
  fdiv :: "js_number \<Rightarrow> js_number \<Rightarrow> js_number"

text \<open>
  \<^verbatim>\<open>String.prototype.startsWith\<close> and \<^verbatim>\<open>String.prototype.includes\<close>, on strings as lists
  of code units.
\<close>

fun startsWith :: "string \<Rightarrow> string \<Rightarrow> bool" where
  "startsWith s [] = True"
| "startsWith [] (p # ps) = False"
| "startsWith (c # cs) (p # ps) = (c = p \<and> startsWith cs ps)"

fun js_includes :: "string \<Rightarrow> string \<Rightarrow> bool" where
  "js_includes [] sub = (sub = [])"
| "js_includes (c # cs) sub = (startsWith (c # cs) sub \<or> js_includes cs sub)"

text \<open>
  A thrown value, as far as the handlers of this code look at it: whether it is an
  \<^verbatim>\<open>instanceof Error\<close>, its \<^verbatim>\<open>message\<close> property (absent on a value that has none) and
  the result of its \<^verbatim>\<open>toString()\<close>.
\<close>

datatype thrown = Thrown (is_Error: bool) (message: "string option") (toString: string)

definition new_Error :: "string \<Rightarrow> thrown" where
  "new_Error msg = Thrown True (Some msg) (if msg = [] then ''Error'' else ''Error: '' @ msg)"

text \<open>\<^verbatim>\<open>error?.message?.includes(sub)\<close>, as a condition.\<close>

definition message_includes :: "thrown \<Rightarrow> string \<Rightarrow> bool" where
  "message_includes error sub =
     (case message error of None \<Rightarrow> False | Some m \<Rightarrow> js_includes m sub)"

text \<open>Truthiness of an optional string, an optional number and an optional bigint.\<close>

definition truthy_string :: "string option \<Rightarrow> bool" where
  "truthy_string s = (case s of None \<Rightarrow> False | Some v \<Rightarrow> v \<noteq> [])"

definition truthy_nat :: "nat option \<Rightarrow> bool" where
  "truthy_nat n = (case n of None \<Rightarrow> False | Some v \<Rightarrow> v \<noteq> 0)"

definition truthy_bigint :: "int option \<Rightarrow> bool" where
  "truthy_bigint n = (case n of None \<Rightarrow> False | Some v \<Rightarrow> v \<noteq> 0)"

section \<open>Currency conversion (useCurrencyConverter)\<close>

record ExchangeRates =
  USDT_NATIVE :: js_number
  USDT_FIAT :: js_number
  NATIVE_FIAT :: js_number
  nativeTokenSymbol :: string
  nativeTokenName :: string
  chainId :: nat
  lastUpdated :: int

text \<open>
  \<^verbatim>\<open>convertPrice(price, from, to)\<close>. The currencies are the strings the callers pass,
  and the \<^verbatim>\<open>switch\<close> is on the template string \<^verbatim>\<open>`${from}_${to}`\<close>. Arithmetic on numbers
  does not throw, so the \<^verbatim>\<open>catch\<close> branch of the source is never entered and the
  function always returns a number.
\<close>

definition convertPrice ::
  "float_ops \<Rightarrow> ExchangeRates \<Rightarrow> js_number \<Rightarrow> string \<Rightarrow> string \<Rightarrow> js_number" where
  "convertPrice ops rates price from to =
     (if from = to \<or> \<not> isFinite price \<or> price = Num 0 then price
      else let key = from @ ''_'' @ to in
        if key = ''USDT_NATIVE'' then fmul ops price (USDT_NATIVE rates)
        else if key = ''USDT_FIAT'' then fmul ops price (USDT_FIAT rates)
        else if key = ''NATIVE_USDT'' then
          (if js_gt (USDT_NATIVE rates) (Num 0) then fdiv ops price (USDT_NATIVE rates) else Num 0)
        else if key = ''NATIVE_FIAT'' then fmul ops price (NATIVE_FIAT rates)
        else if key = ''FIAT_USDT'' then
          (if js_gt (USDT_FIAT rates) (Num 0) then fdiv ops price (USDT_FIAT rates) else Num 0)
        else if key = ''FIAT_NATIVE'' then
          (if js_gt (NATIVE_FIAT rates) (Num 0) then fdiv ops price (NATIVE_FIAT rates) else Num 0)
        else price)"

section \<open>Exchange rates (useCurrencyConverter)\<close>

subsection \<open>Configuration\<close>

record ChainNativeToken =
  token_symbol :: string
  token_name :: string
  token_decimals :: nat
  coingeckoId :: string

definition AVAX_token :: ChainNativeToken where
  "AVAX_token = \<lparr>token_symbol = ''AVAX'', token_name = ''Avalanche'', token_decimals = 18,
     coingeckoId = ''avalanche-2''\<rparr>"

definition ETH_token :: ChainNativeToken where
  "ETH_token = \<lparr>token_symbol = ''ETH'', token_name = ''Ethereum'', token_decimals = 18,
     coingeckoId = ''ethereum''\<rparr>"

definition MATIC_token :: ChainNativeToken where
  "MATIC_token = \<lparr>token_symbol = ''MATIC'', token_name = ''Polygon'', token_decimals = 18,
     coingeckoId = ''matic-network''\<rparr>"

definition CELO_token :: ChainNativeToken where
  "CELO_token = \<lparr>token_symbol = ''CELO'', token_name = ''Celo'', token_decimals = 18,
     coingeckoId = ''celo''\<rparr>"

definition CHAIN_NATIVE_TOKENS :: "nat \<Rightarrow> ChainNativeToken option" where
  "CHAIN_NATIVE_TOKENS c =
     (if c = 43113 then Some AVAX_token
      else if c = 84532 then Some ETH_token
      else if c = 11155111 then Some ETH_token
      else if c = 421614 then Some ETH_token
      else if c = 1 then Some ETH_token
      else if c = 137 then Some MATIC_token
      else if c = 43114 then Some AVAX_token
      else if c = 42220 then Some CELO_token
      else if c = 44787 then Some CELO_token
      else if c = 42161 then Some ETH_token
      else if c = 10 then Some ETH_token
      else if c = 8453 then Some ETH_token
      else None)"

definition DEFAULT_CHAIN_ID :: nat where
  "DEFAULT_CHAIN_ID = 43113"

text \<open>
  The ids of \<^verbatim>\<open>SUPPORTED_CHAINS\<close>: Avalanche Fuji, Base Sepolia, Sepolia, Arbitrum
  Sepolia.
\<close>

definition SUPPORTED_CHAIN_ids :: "nat list" where
  "SUPPORTED_CHAIN_ids = [43113, 84532, 11155111, 421614]"

definition RATE_CACHE_DURATION :: int where
  "RATE_CACHE_DURATION = 5 * 60 * 1000"

definition GEO_CACHE_DURATION :: int where
  "GEO_CACHE_DURATION = 24 * 60 * 60 * 1000"



definition MAX_RETRIES :: nat where
  "MAX_RETRIES = 2"

text \<open>
  \<^verbatim>\<open>{...DEFAULT_RATES, nativeTokenSymbol, nativeTokenName, chainId, lastUpdated}\<close>: the
  default ratios with the token and chain filled in. The decimal literal \<^verbatim>\<open>0.025\<close> is
  written as the real it names.
\<close>

definition defaultRates :: "ChainNativeToken \<Rightarrow> nat \<Rightarrow> int \<Rightarrow> ExchangeRates" where
  "defaultRates info c t =
     \<lparr>USDT_NATIVE = Num (25 / 1000), USDT_FIAT = Num 1, NATIVE_FIAT = Num 40,
      nativeTokenSymbol = token_symbol info, nativeTokenName = token_name info,
      chainId = c, lastUpdated = t\<rparr>"

subsection \<open>State of the hook and persisted cache\<close>

text \<open>
  \<^verbatim>\<open>localStorage\<close>, as far as the hook uses it: one item per chain under the key
  \<^verbatim>\<open>currency_rates_v2_<chainId>\<close> and one item under \<^verbatim>\<open>user_geo_v2\<close>. An item is a string;
  it either fails to parse or parses to the record that was stored (serialisation is
  taken to be lossless, and writes to succeed).
\<close>

record GeoData =
  geo_currency :: string
  geo_country :: string
  geo_lastUpdated :: int

datatype rates_item = RatesUnparseable | RatesParsed ExchangeRates

datatype geo_item = GeoUnparseable | GeoParsed GeoData

record local_storage =
  rates_items :: "nat \<Rightarrow> rates_item option"
  geo_stored :: "geo_item option"

record hook_state =
  st_rates :: ExchangeRates
  st_loading :: bool
  st_error :: "string option"
  st_userCountry :: string
  localStorage :: local_storage

text \<open>
  Functions that the hook calls and that are not in this repository's sources: division
  on numbers, \<^verbatim>\<open>String.prototype.toLowerCase\<close>, and the token information that the
  branch on \<^verbatim>\<open>getChainMetadata\<close> builds for a chain (absent when there is no metadata).
\<close>

record converter_lib =
  float :: float_ops
  toLowerCase :: "string \<Rightarrow> string"
  metadataToken :: "nat \<Rightarrow> ChainNativeToken option"

subsection \<open>What a render computes\<close>

definition isSupportedChain :: "nat option \<Rightarrow> bool" where
  "isSupportedChain c = (if \<not> truthy_nat c then False else the c \<in> set SUPPORTED_CHAIN_ids)"

definition getEffectiveChainId :: "nat option \<Rightarrow> bool \<Rightarrow> nat" where
  "getEffectiveChainId c isConnected =
     (if \<not> isConnected then DEFAULT_CHAIN_ID
      else if \<not> truthy_nat c then DEFAULT_CHAIN_ID
      else if isSupportedChain c then the c
      else the c)"

definition nativeTokenInfo_of :: "converter_lib \<Rightarrow> nat \<Rightarrow> ChainNativeToken" where
  "nativeTokenInfo_of lib c =
     (case CHAIN_NATIVE_TOKENS c of
        Some tokenInfo \<Rightarrow> tokenInfo
      | None \<Rightarrow>
          (case metadataToken lib c of
             Some tokenInfo \<Rightarrow> tokenInfo
           | None \<Rightarrow> the (CHAIN_NATIVE_TOKENS DEFAULT_CHAIN_ID)))"

text \<open>
  The values that \<^verbatim>\<open>fetchRates\<close> closes over: they are fixed when the callback is
  created in a render and do not change while a call of it is in flight.
\<close>

record fetch_closure =
  effectiveChainId :: nat
  nativeTokenInfo :: ChainNativeToken
  rates_chainId :: nat
  rates_lastUpdated :: int
  closure_userCountry :: string
  isUnsupportedNetwork :: bool

definition render :: "converter_lib \<Rightarrow> nat option \<Rightarrow> bool \<Rightarrow> hook_state \<Rightarrow> fetch_closure" where
  "render lib c isConnected s =
     \<lparr>effectiveChainId = getEffectiveChainId c isConnected,
      nativeTokenInfo = nativeTokenInfo_of lib (getEffectiveChainId c isConnected),
      rates_chainId = chainId (st_rates s),
      rates_lastUpdated = lastUpdated (st_rates s),
      closure_userCountry = st_userCountry s,
      isUnsupportedNetwork = (isConnected \<and> truthy_nat c \<and> \<not> isSupportedChain c)\<rparr>"


subsection \<open>fetchGeoData\<close>

text \<open>
  \<^verbatim>\<open>fetchGeoData\<close> never throws. Its synchronous prefix reads the cached item: a fresh
  item gives its currency and an item that fails to parse gives the \<^verbatim>\<open>userCountry\<close> of
  the closure, both without a request; otherwise the geo source is asked.
\<close>

datatype geo_prefix = GeoReturn string | GeoNeedsFetch

definition geo_cache_lookup :: "string \<Rightarrow> int \<Rightarrow> hook_state \<Rightarrow> geo_prefix" where
  "geo_cache_lookup userCountry0 now s =
     (case geo_stored (localStorage s) of
        None \<Rightarrow> GeoNeedsFetch
      | Some GeoUnparseable \<Rightarrow> GeoReturn userCountry0
      | Some (GeoParsed parsed) \<Rightarrow>
          (if now - geo_lastUpdated parsed < GEO_CACHE_DURATION
           then GeoReturn (geo_currency parsed) else GeoNeedsFetch))"

text \<open>
  The answer of the geo source: the request throws (or is aborted, or the body is no
  JSON), the response is not ok, or it carries \<^verbatim>\<open>currency\<close> and \<^verbatim>\<open>country\<close>.
\<close>

datatype geo_response = GeoThrows | GeoNotOk | GeoOk "string option" "string option"

definition geo_fetch_done ::
  "string \<Rightarrow> geo_response \<Rightarrow> int \<Rightarrow> hook_state \<Rightarrow> string \<times> hook_state" where
  "geo_fetch_done userCountry0 resp now s =
     (case resp of
        GeoOk cur country \<Rightarrow>
          (let currency = (if truthy_string cur then the cur else ''USD'');
               geoCache = \<lparr>geo_currency = currency,
                           geo_country = (if truthy_string country then the country else ''US''),
                           geo_lastUpdated = now\<rparr>
           in (currency,
               s\<lparr>localStorage := (localStorage s)\<lparr>geo_stored := Some (GeoParsed geoCache)\<rparr>,
                  st_userCountry := currency\<rparr>))
      | GeoNotOk \<Rightarrow> (userCountry0, s)
      | GeoThrows \<Rightarrow> (userCountry0, s))"

subsection \<open>One attempt of the price request\<close>

text \<open>
  The answer of the price source: the request throws, the response is not ok (with its
  status in decimal and its status text), or the body parses to an object of objects of
  numbers.
\<close>

datatype price_response =
    PriceThrows thrown
  | PriceNotOk string string
  | PriceJson "string \<Rightarrow> (string \<Rightarrow> js_number option) option"

definition truthy_number :: "js_number option \<Rightarrow> bool" where
  "truthy_number n = (case n of None \<Rightarrow> False | Some v \<Rightarrow> v \<noteq> NaN \<and> v \<noteq> Num 0)"

text \<open>
  The body of the inner \<^verbatim>\<open>try\<close> of \<^verbatim>\<open>attemptFetch\<close> after the response has arrived:
  \<open>Inl\<close> is the value thrown, \<open>Inr\<close> the record \<^verbatim>\<open>newRates\<close>.
\<close>

definition price_rates ::
  "converter_lib \<Rightarrow> fetch_closure \<Rightarrow> string \<Rightarrow> price_response \<Rightarrow> int \<Rightarrow> thrown + ExchangeRates" where
  "price_rates lib c localCurrency resp now =
     (case resp of
        PriceThrows fetchError \<Rightarrow> Inl fetchError
      | PriceNotOk st statusText \<Rightarrow> Inl (new_Error (''HTTP '' @ st @ '': '' @ statusText))
      | PriceJson data \<Rightarrow>
          (case data ''tether'' of
             None \<Rightarrow> Inl (new_Error ''Invalid API response structure'')
           | Some tether \<Rightarrow>
          (case data (coingeckoId (nativeTokenInfo c)) of
             None \<Rightarrow> Inl (new_Error ''Invalid API response structure'')
           | Some native \<Rightarrow>
               (let usdtPrice = (if truthy_number (tether ''usd'') then the (tether ''usd'') else Num 1);
                    nativePrice = native ''usd''
                in if \<not> truthy_number nativePrice \<or> js_le (the nativePrice) (Num 0)
                   then Inl (new_Error ''Invalid native token price data'')
                   else
                     (let usdtToFiat =
                            (if truthy_number (tether (toLowerCase lib localCurrency))
                             then the (tether (toLowerCase lib localCurrency)) else usdtPrice);
                          nativeToFiat =
                            (if truthy_number (native (toLowerCase lib localCurrency))
                             then the (native (toLowerCase lib localCurrency))
                             else the nativePrice);
                          usdtToNative = fdiv (float lib) usdtPrice (the nativePrice)
                      in Inr \<lparr>USDT_NATIVE = usdtToNative, USDT_FIAT = usdtToFiat,
                               NATIVE_FIAT = nativeToFiat,
                               nativeTokenSymbol = token_symbol (nativeTokenInfo c),
                               nativeTokenName = token_name (nativeTokenInfo c),
                               chainId = effectiveChainId c, lastUpdated = now\<rparr>)))))"

text \<open>
  \<^verbatim>\<open>setRates(newRates); localStorage.setItem(cacheKey, JSON.stringify(newRates));
  setError(null)\<close>, where \<^verbatim>\<open>cacheKey\<close> is the key of the closure's \<^verbatim>\<open>effectiveChainId\<close>.
\<close>

definition price_success :: "fetch_closure \<Rightarrow> ExchangeRates \<Rightarrow> hook_state \<Rightarrow> hook_state" where
  "price_success c newRates s =
     s\<lparr>st_rates := newRates,
       localStorage := (localStorage s)
         \<lparr>rates_items := (rates_items (localStorage s))(effectiveChainId c \<mapsto> RatesParsed newRates)\<rparr>,
       st_error := None\<rparr>"

text \<open>
  The \<^verbatim>\<open>catch\<close> and \<^verbatim>\<open>finally\<close> blocks of \<^verbatim>\<open>fetchRates\<close>, entered when the last attempt has
  thrown: the error is recorded, then the cached record of the chain is used when it
  parses and has a truthy \<^verbatim>\<open>lastUpdated\<close>, and the default record otherwise.
\<close>

definition fetch_failed :: "fetch_closure \<Rightarrow> thrown \<Rightarrow> int \<Rightarrow> hook_state \<Rightarrow> hook_state" where
  "fetch_failed c error now s =
     (let s1 = s\<lparr>st_error := (if is_Error error then message error else Some ''Network error'')\<rparr>
      in case rates_items (localStorage s1) (effectiveChainId c) of
           Some (RatesParsed parsed) \<Rightarrow>
             (if lastUpdated parsed \<noteq> 0 then s1\<lparr>st_rates := parsed, st_loading := False\<rparr>
              else s1\<lparr>st_rates := defaultRates (nativeTokenInfo c) (effectiveChainId c) now,
                      st_loading := False\<rparr>)
         | Some RatesUnparseable \<Rightarrow>
             s1\<lparr>st_rates := defaultRates (nativeTokenInfo c) (effectiveChainId c) now,
                st_loading := False\<rparr>
         | None \<Rightarrow>
             s1\<lparr>st_rates := defaultRates (nativeTokenInfo c) (effectiveChainId c) now,
                st_loading := False\<rparr>)"

subsection \<open>fetchRates, run to completion\<close>

text \<open>
  The first test of \<^verbatim>\<open>fetchRates\<close>: nothing is done when the call is not forced and the
  \<^verbatim>\<open>rates\<close> state of the closure is for the same chain and younger than five minutes.
\<close>

definition fetch_skipped :: "fetch_closure \<Rightarrow> bool \<Rightarrow> int \<Rightarrow> bool" where
  "fetch_skipped c forceRefresh now =
     (\<not> forceRefresh \<and> rates_chainId c = effectiveChainId c \<and> rates_lastUpdated c \<noteq> 0 \<and>
      now - rates_lastUpdated c < RATE_CACHE_DURATION)"







subsection \<open>fetchRates calls in flight\<close>

text \<open>
  Several calls of \<^verbatim>\<open>fetchRates\<close> can be in flight while the wallet changes chain. A
  call in flight is its closure and the point where it is suspended: waiting for the
  geo source or for the price source in attempt \<open>k\<close>, or waiting for the retry timer
  before attempt \<open>k\<close>.
\<close>

datatype fetch_pc = AwaitGeo nat | AwaitPrice nat string | Backoff nat

record system =
  hook :: hook_state
  prop_chainId :: "nat option"
  prop_isConnected :: bool
  tasks :: "(fetch_closure \<times> fetch_pc) list"

text \<open>
  What can happen next: the wallet (the props of the hook) changes; \<^verbatim>\<open>fetchRates\<close> is
  called through the closure of a render (the current one, or an earlier one that an
  effect or a timer still holds); the geo source or the price source answers the call
  in flight with the given index; its retry timer fires. The integer is the clock.
\<close>

datatype fetch_event =
    WalletChanges "nat option" bool
  | CallFetchRates fetch_closure bool int
  | GeoAnswers nat geo_response int
  | PriceAnswers nat price_response int
  | TimerFires nat int

text \<open>The synchronous start of an attempt, up to its first suspension.\<close>

definition begin_attempt :: "fetch_closure \<Rightarrow> nat \<Rightarrow> int \<Rightarrow> hook_state \<Rightarrow> fetch_pc" where
  "begin_attempt c k now s =
     (case geo_cache_lookup (closure_userCountry c) now s of
        GeoReturn currency \<Rightarrow> AwaitPrice k currency
      | GeoNeedsFetch \<Rightarrow> AwaitGeo k)"

definition remove_task :: "nat \<Rightarrow> 'a list \<Rightarrow> 'a list" where
  "remove_task i ts = take i ts @ drop (Suc i) ts"

text \<open>One event; \<open>None\<close> when the event cannot happen in the state.\<close>

fun step :: "converter_lib \<Rightarrow> system \<Rightarrow> fetch_event \<Rightarrow> system option" where
  "step lib sys (WalletChanges c isConnected) =
     Some (sys\<lparr>prop_chainId := c, prop_isConnected := isConnected\<rparr>)"
| "step lib sys (CallFetchRates c forceRefresh now) =
     (if fetch_skipped c forceRefresh now then Some sys
      else if isUnsupportedNetwork c
      then Some (sys\<lparr>hook := (hook sys)
              \<lparr>st_rates := defaultRates (nativeTokenInfo c) (effectiveChainId c) now\<rparr>\<rparr>)
      else
        (let s0 = (hook sys)\<lparr>st_loading := True, st_error := None\<rparr>
         in Some (sys\<lparr>hook := s0, tasks := tasks sys @ [(c, begin_attempt c 0 now s0)]\<rparr>)))"
| "step lib sys (GeoAnswers i resp now) =
     (if i < length (tasks sys)
      then (case tasks sys ! i of
              (c, AwaitGeo k) \<Rightarrow>
                Some (sys\<lparr>hook := snd (geo_fetch_done (closure_userCountry c) resp now (hook sys)),
                          tasks := (tasks sys)
                            [i := (c, AwaitPrice k
                               (fst (geo_fetch_done (closure_userCountry c) resp now (hook sys))))]\<rparr>)
            | (c, AwaitPrice k currency) \<Rightarrow> None
            | (c, Backoff k) \<Rightarrow> None)
      else None)"
| "step lib sys (PriceAnswers i resp now) =
     (if i < length (tasks sys)
      then (case tasks sys ! i of
              (c, AwaitPrice k localCurrency) \<Rightarrow>
                (case price_rates lib c localCurrency resp now of
                   Inr newRates \<Rightarrow>
                     Some (sys\<lparr>hook := (price_success c newRates (hook sys))\<lparr>st_loading := False\<rparr>,
                               tasks := remove_task i (tasks sys)\<rparr>)
                 | Inl error \<Rightarrow>
                     (if k < MAX_RETRIES
                      then Some (sys\<lparr>tasks := (tasks sys)[i := (c, Backoff (k + 1))]\<rparr>)
                      else Some (sys\<lparr>hook := fetch_failed c error now (hook sys),
                                     tasks := remove_task i (tasks sys)\<rparr>)))
            | (c, AwaitGeo k) \<Rightarrow> None
            | (c, Backoff k) \<Rightarrow> None)
      else None)"
| "step lib sys (TimerFires i now) =
     (if i < length (tasks sys)
      then (case tasks sys ! i of
              (c, Backoff k) \<Rightarrow>
                Some (sys\<lparr>tasks := (tasks sys)[i := (c, begin_attempt c k now (hook sys))]\<rparr>)
            | (c, AwaitGeo k) \<Rightarrow> None
            | (c, AwaitPrice k currency) \<Rightarrow> None)
      else None)"

fun run :: "converter_lib \<Rightarrow> system \<Rightarrow> fetch_event list \<Rightarrow> system option" where
  "run lib sys [] = Some sys"
| "run lib sys (ev # evs) =
     (case step lib sys ev of None \<Rightarrow> None | Some sys' \<Rightarrow> run lib sys' evs)"

text \<open>
  The persisted rate cache is consistent when every item that parses carries, in its
  \<^verbatim>\<open>chainId\<close> field, the chain id of the key it is stored under.
\<close>

definition cache_consistent :: "local_storage \<Rightarrow> bool" where
  "cache_consistent store =
     (\<forall>c r. rates_items store c = Some (RatesParsed r) \<longrightarrow> chainId r = c)"

section \<open>Wallet context (Web3Provider)\<close>

subsection \<open>What the closures see\<close>

text \<open>
  The values that the hooks hand to the callbacks of \<^verbatim>\<open>Web3Provider\<close>: the account
  address and chain (\<^verbatim>\<open>useAccount\<close>), the token decimals (\<^verbatim>\<open>useReadContract\<close>), and the
  configuration the module imports: the target chain's id and the two address tables,
  whose entries come from the build environment and may be absent or empty.
\<close>

record web3_env =
  address :: "string option"
  chain_id :: "nat option"
  TARGET_CHAIN_id :: nat
  USDT_ADDRESSES :: "nat \<Rightarrow> string option"
  ESCROW_ADDRESSES :: "nat \<Rightarrow> string option"
  usdtDecimals :: "nat option"

text \<open>\<^verbatim>\<open>!address || !chain?.id\<close> is the negation of this.\<close>

definition wallet_connected :: "web3_env \<Rightarrow> bool" where
  "wallet_connected env = (truthy_string (address env) \<and> truthy_nat (chain_id env))"

definition isCorrectNetwork :: "web3_env \<Rightarrow> bool" where
  "isCorrectNetwork env = (chain_id env = Some (TARGET_CHAIN_id env))"

definition usdtContractAddress :: "web3_env \<Rightarrow> string option" where
  "usdtContractAddress env =
     (if \<not> truthy_string (address env) \<or> \<not> truthy_nat (chain_id env) then None
      else USDT_ADDRESSES env (the (chain_id env)))"

definition escrowContractAddress :: "web3_env \<Rightarrow> string option" where
  "escrowContractAddress env =
     (if \<not> truthy_nat (chain_id env) then None
      else ESCROW_ADDRESSES env (the (chain_id env)))"

subsection \<open>Library functions and the chain client\<close>

text \<open>
  Functions of the language and of the chain library that the callbacks call and that
  are not part of this repository are parameters: \<^verbatim>\<open>BigInt(string)\<close> (which throws on a
  string that is no integer literal), \<^verbatim>\<open>formatUnits\<close>, \<^verbatim>\<open>parseFloat\<close>,
  \<^verbatim>\<open>bigint.toString()\<close>, \<^verbatim>\<open>decodeEventLog\<close> for the escrow ABI, and \<^verbatim>\<open>parseWeb3Error\<close>.
\<close>

datatype log = Log (log_data: string) (log_topics: "string list")

record event_args =
  args_purchaseId :: "int option"

datatype event = Event (eventName: string) (args: "event_args option")

record js_lib =
  BigInt :: "string \<Rightarrow> thrown + int"
  formatUnits :: "int \<Rightarrow> nat \<Rightarrow> string"
  parseFloat :: "string \<Rightarrow> js_number"
  bigint_toString :: "int \<Rightarrow> string"
  decodeEventLog :: "log \<Rightarrow> thrown + event"
  parseWeb3Error :: "thrown \<Rightarrow> string"

record TradeDetails =
  productCost :: int
  active :: bool
  remainingQuantity :: int

record receipt =
  logs :: "log list option"

text \<open>
  What the chain client answers to each call the callbacks make (\<open>Inl\<close>: the call
  throws), and the clock. \<open>simulateContract_result\<close> is \<^verbatim>\<open>request.gas\<close> of a simulation
  that returns.
\<close>

record chain_io =
  readContract_result :: "thrown + TradeDetails"
  simulateContract_result :: "thrown + int option"
  writeContractAsync_result :: "thrown + string"
  waitForTransactionReceipt_result :: "thrown + receipt"
  refetchAllowance_result :: "thrown + int option"
  Date_now :: int

text \<open>
  The calls a callback issues, in order: chain reads, simulations, writes and receipt
  waits with their arguments, the refetches of the balance and allowance queries, and
  the timers it sets. Logging is left out.
\<close>

datatype call_args =
    TradesArgs int
  | BuyTradeArgs int int string string int int
  | ApproveArgs string int

datatype timer_callback = Call_refreshBalances | Call_refetchAllowance

datatype effect =
    ReadContract string string call_args
  | SimulateContract string string call_args string
  | WriteContractAsync string string call_args int
  | WaitForTransactionReceipt string nat
  | RefetchAllowance
  | RefetchUSDTBalance
  | RefetchAvaxBalance
  | SetTimeout timer_callback nat

text \<open>The gas of every write submitted, in order.\<close>

fun submitted_gas :: "effect list \<Rightarrow> int list" where
  "submitted_gas [] = []"
| "submitted_gas (WriteContractAsync a f xs g # es) = g # submitted_gas es"
| "submitted_gas (e # es) = submitted_gas es"

text \<open>The arguments of every simulation and write, in order.\<close>

fun submitted_args :: "effect list \<Rightarrow> call_args list" where
  "submitted_args [] = []"
| "submitted_args (WriteContractAsync a f xs g # es) = xs # submitted_args es"
| "submitted_args (SimulateContract a f xs acc # es) = xs # submitted_args es"
| "submitted_args (e # es) = submitted_args es"

fun scheduled_timers :: "effect list \<Rightarrow> (timer_callback \<times> nat) list" where
  "scheduled_timers [] = []"
| "scheduled_timers (SetTimeout cb ms # es) = (cb, ms) # scheduled_timers es"
| "scheduled_timers (e # es) = scheduled_timers es"

subsection \<open>Constants of web3.config\<close>

definition GAS_LIMITS_APPROVE :: int where
  "GAS_LIMITS_APPROVE = 100000"

definition GAS_LIMITS_BUY_TRADE :: int where
  "GAS_LIMITS_BUY_TRADE = 800000"

subsection \<open>getTrade\<close>

text \<open>
  \<^verbatim>\<open>getTrade\<close> throws \<^verbatim>\<open>new Error(msg)\<close>; the result is \<open>Inl msg\<close> then. The conversion
  \<^verbatim>\<open>BigInt(tradeId)\<close> is inside its \<^verbatim>\<open>try\<close>.
\<close>

definition getTrade_catch :: "thrown \<Rightarrow> string" where
  "getTrade_catch error =
     (if message_includes error ''TradeNotFound''
      then ''Trade not found'' else ''Failed to fetch trade details'')"

definition getTrade ::
  "web3_env \<Rightarrow> js_lib \<Rightarrow> chain_io \<Rightarrow> string \<Rightarrow> (string + TradeDetails) \<times> effect list" where
  "getTrade env lib io tradeId =
     (if \<not> truthy_string (escrowContractAddress env) then (Inl ''Escrow contract not available'', [])
      else case BigInt lib tradeId of
          Inl error \<Rightarrow> (Inl (getTrade_catch error), [])
        | Inr tid \<Rightarrow>
            (case readContract_result io of
               Inl error \<Rightarrow>
                 (Inl (getTrade_catch error),
                  [ReadContract (the (escrowContractAddress env)) ''trades'' (TradesArgs tid)])
             | Inr tradeDetails \<Rightarrow>
                 (Inr tradeDetails,
                  [ReadContract (the (escrowContractAddress env)) ''trades'' (TradesArgs tid)])))"

subsection \<open>buyTrade\<close>

record BuyTradeParams =
  tradeId :: string
  quantity :: string
  logisticsProvider :: string

record PaymentTransaction =
  hash :: string
  amount :: string
  token :: string
  tx_to :: string
  tx_from :: string
  status :: string
  timestamp :: int
  purchaseId :: "string option"

text \<open>
  The gas limit after the simulation: \<^verbatim>\<open>request.gas ? (request.gas * 120n) / 100n :
  GAS_LIMITS.BUY_TRADE\<close>, and the fallback when the simulation throws. Division on
  bigints truncates towards zero (\<open>sdiv\<close>).
\<close>

definition gasEstimate :: "thrown + int option \<Rightarrow> int" where
  "gasEstimate sim =
     (case sim of
        Inr gas \<Rightarrow> (if truthy_bigint gas then (the gas * 120) sdiv 100 else GAS_LIMITS_BUY_TRADE)
      | Inl estimateError \<Rightarrow> GAS_LIMITS_BUY_TRADE)"

text \<open>
  The purchase id read from the receipt: every log is decoded, a log that fails to
  decode is dropped, and the first decoded event named \<^verbatim>\<open>PurchaseCreated\<close> gives
  \<^verbatim>\<open>args.purchaseId?.toString()\<close> when it has arguments.
\<close>

definition decodedLogs :: "js_lib \<Rightarrow> log list \<Rightarrow> event list" where
  "decodedLogs lib ls =
     concat (map (\<lambda>l. case decodeEventLog lib l of Inl err \<Rightarrow> [] | Inr ev \<Rightarrow> [ev]) ls)"

definition receipt_purchaseId :: "js_lib \<Rightarrow> receipt \<Rightarrow> string option" where
  "receipt_purchaseId lib r =
     (case logs r of
        None \<Rightarrow> None
      | Some ls \<Rightarrow>
          (case find (\<lambda>ev. eventName ev = ''PurchaseCreated'') (decodedLogs lib ls) of
             None \<Rightarrow> None
           | Some purchaseCreatedEvent \<Rightarrow>
               (case args purchaseCreatedEvent of
                  None \<Rightarrow> None
                | Some a \<Rightarrow> map_option (bigint_toString lib) (args_purchaseId a))))"

text \<open>
  \<^verbatim>\<open>Number(usdtDecimals || 6)\<close>.
\<close>

definition decimals_or_6 :: "nat option \<Rightarrow> nat" where
  "decimals_or_6 d = (if truthy_nat d then the d else 6)"

text \<open>
  The body of the \<^verbatim>\<open>try\<close> block of \<^verbatim>\<open>buyTrade\<close>, entered once the four preconditions
  have passed: \<open>Inl\<close> is the value thrown inside the block, which the \<^verbatim>\<open>catch\<close> block
  receives. It is written in two parts. \<open>buyTrade_submit\<close> is the block from the cost
  computation on, given the parsed trade id and quantity, the trade details read from
  the chain and the calls issued so far; \<open>buyTrade_try\<close> is the whole block.
\<close>

definition buyTrade_submit ::
  "web3_env \<Rightarrow> js_lib \<Rightarrow> chain_io \<Rightarrow> BuyTradeParams \<Rightarrow> int \<Rightarrow> int \<Rightarrow> TradeDetails \<Rightarrow>
     effect list \<Rightarrow> (thrown + PaymentTransaction) \<times> effect list" where
  "buyTrade_submit env lib io params tid qty tradeDetails eff1 =
     (let escrow = the (escrowContractAddress env);
          totalProductCost = productCost tradeDetails * qty;
          buyerToken = the (usdtContractAddress env);
          buyerTokenAmount = totalProductCost;
          totalAmountInUSDT = totalProductCost;
          call = BuyTradeArgs tid qty (logisticsProvider params) buyerToken
                   buyerTokenAmount totalAmountInUSDT;
          eff2 = eff1 @
            [SimulateContract escrow ''buyTrade'' call (the (address env)),
             WriteContractAsync escrow ''buyTrade'' call
               (gasEstimate (simulateContract_result io))]
      in case writeContractAsync_result io of
           Inl error \<Rightarrow> (Inl error, eff2)
         | Inr h \<Rightarrow>
             (if h = [] then (Inl (new_Error ''Transaction failed to execute''), eff2)
              else case waitForTransactionReceipt_result io of
                  Inl error \<Rightarrow> (Inl error, eff2 @ [WaitForTransactionReceipt h 60000])
                | Inr r \<Rightarrow>
                    (Inr \<lparr>hash = h,
                          amount = formatUnits lib totalAmountInUSDT
                                     (decimals_or_6 (usdtDecimals env)),
                          token = ''USDT'',
                          tx_to = escrow,
                          tx_from = the (address env),
                          status = ''pending'',
                          timestamp = Date_now io,
                          purchaseId = receipt_purchaseId lib r\<rparr>,
                     eff2 @ [WaitForTransactionReceipt h 60000,
                             SetTimeout Call_refreshBalances 2000])))"

definition buyTrade_try ::
  "web3_env \<Rightarrow> js_lib \<Rightarrow> chain_io \<Rightarrow> BuyTradeParams \<Rightarrow>
     (thrown + PaymentTransaction) \<times> effect list" where
  "buyTrade_try env lib io params =
     (case BigInt lib (tradeId params) of
        Inl error \<Rightarrow> (Inl error, [])
      | Inr tid \<Rightarrow>
     (case BigInt lib (quantity params) of
        Inl error \<Rightarrow> (Inl error, [])
      | Inr qty \<Rightarrow>
     (if \<not> startsWith (logisticsProvider params) ''0x'' \<or> length (logisticsProvider params) \<noteq> 42
      then (Inl (new_Error ''Invalid logistics provider address''), [])
      else
     (case getTrade env lib io (tradeId params) of
        (Inl msg, eff1) \<Rightarrow> (Inl (new_Error msg), eff1)
      | (Inr tradeDetails, eff1) \<Rightarrow>
          buyTrade_submit env lib io params tid qty tradeDetails eff1))))"

text \<open>
  The \<^verbatim>\<open>catch\<close> block of \<^verbatim>\<open>buyTrade\<close>: \<^verbatim>\<open>error?.message || error?.toString() || ""\<close>, then
  the first matching substring decides the message of the error thrown to the caller.
\<close>

definition errorMessage_of :: "thrown \<Rightarrow> string" where
  "errorMessage_of error =
     (if truthy_string (message error) then the (message error)
      else if toString error \<noteq> [] then toString error
      else [])"

definition buyTrade_classify :: "string \<Rightarrow> string" where
  "buyTrade_classify errorMessage =
     (if js_includes errorMessage ''InsufficientTokenBalance''
        then ''Insufficient USDT balance for this purchase''
      else if js_includes errorMessage ''InsufficientTokenAllowance''
        then ''USDT allowance insufficient. Please approve the amount first''
      else if js_includes errorMessage ''InvalidTradeId'' \<or> js_includes errorMessage ''TradeNotFound''
        then ''Invalid trade ID. This product may no longer be available''
      else if js_includes errorMessage ''InsufficientQuantity''
        then ''Requested quantity exceeds available stock''
      else if js_includes errorMessage ''InvalidQuantity''
        then ''Invalid quantity specified''
      else if js_includes errorMessage ''InvalidLogisticsProvider''
        then ''Invalid logistics provider selected''
      else if js_includes errorMessage ''BuyerIsSeller''
        then ''Cannot purchase your own product''
      else if js_includes errorMessage ''InvalidTradeState''
        then ''Trade is not in a valid state for purchase''
      else if js_includes errorMessage ''User rejected'' \<or> js_includes errorMessage ''user rejected''
        then ''Transaction was rejected by user''
      else if js_includes errorMessage ''Internal JSON-RPC error''
        then ''Network error. Please check your connection and try again''
      else if js_includes errorMessage ''gas''
        then ''Transaction failed due to gas issues. Please try again''
      else ''Transaction failed. Please try again.'')"

definition buyTrade_catch :: "thrown \<Rightarrow> string" where
  "buyTrade_catch error = buyTrade_classify (errorMessage_of error)"

text \<open>
  \<^verbatim>\<open>buyTrade(params)\<close>: the promise resolves with a \<^verbatim>\<open>PaymentTransaction\<close> (\<open>Inr\<close>) or
  rejects with \<^verbatim>\<open>new Error(msg)\<close> (\<open>Inl msg\<close>); the second component lists the calls
  issued.
\<close>

definition buyTrade ::
  "web3_env \<Rightarrow> js_lib \<Rightarrow> chain_io \<Rightarrow> BuyTradeParams \<Rightarrow>
     (string + PaymentTransaction) \<times> effect list" where
  "buyTrade env lib io params =
     (if \<not> truthy_string (address env) \<or> \<not> truthy_nat (chain_id env)
        then (Inl ''Wallet not connected'', [])
      else if \<not> isCorrectNetwork env
        then (Inl ''Please switch to the correct network first'', [])
      else if \<not> truthy_string (escrowContractAddress env)
        then (Inl ''Escrow contract not available on this network'', [])
      else if \<not> truthy_string (usdtContractAddress env)
        then (Inl ''USDT contract not available on this network'', [])
      else case buyTrade_try env lib io params of
          (Inl error, eff) \<Rightarrow> (Inl (buyTrade_catch error), eff)
        | (Inr tx, eff) \<Rightarrow> (Inr tx, eff))"

subsection \<open>getCurrentAllowance and approveUSDT\<close>

text \<open>
  \<^verbatim>\<open>getCurrentAllowance()\<close> never throws. It returns 0 without a read when the wallet or
  the token contract is missing, and 0 when the read throws, returns no data (or a zero
  allowance), or the decimals are not known yet.
\<close>

definition getCurrentAllowance ::
  "web3_env \<Rightarrow> js_lib \<Rightarrow> chain_io \<Rightarrow> js_number \<times> effect list" where
  "getCurrentAllowance env lib io =
     (if \<not> truthy_string (address env) \<or> \<not> truthy_nat (chain_id env) \<or>
         \<not> truthy_string (usdtContractAddress env)
      then (Num 0, [])
      else case refetchAllowance_result io of
          Inl error \<Rightarrow> (Num 0, [RefetchAllowance])
        | Inr data \<Rightarrow>
            (if truthy_bigint data \<and> usdtDecimals env \<noteq> None
             then (parseFloat lib (formatUnits lib (the data) (the (usdtDecimals env))),
                   [RefetchAllowance])
             else (Num 0, [RefetchAllowance])))"

text \<open>
  \<^verbatim>\<open>BigInt("0xffffffffffffffffffffffffffffffffffffffffffffffffffffffffffffffff")\<close>:
  sixty-four hexadecimal digits \<^verbatim>\<open>f\<close>.
\<close>

definition maxApproval :: int where
  "maxApproval = 0xffffffffffffffffffffffffffffffffffffffffffffffffffffffffffffffff"

definition approveUSDT_catch :: "js_lib \<Rightarrow> thrown \<Rightarrow> string" where
  "approveUSDT_catch lib error =
     (if message_includes error ''User rejected'' then ''Approval was rejected by user''
      else if message_includes error ''insufficient funds'' then ''Insufficient AVAX for gas fees''
      else ''Approval failed: '' @ parseWeb3Error lib error)"

text \<open>
  \<^verbatim>\<open>approveUSDT(amount)\<close>: resolves with a hash (\<open>Inr\<close>) or rejects with
  \<^verbatim>\<open>new Error(msg)\<close> (\<open>Inl msg\<close>).
\<close>

definition approveUSDT ::
  "web3_env \<Rightarrow> js_lib \<Rightarrow> chain_io \<Rightarrow> string \<Rightarrow> (string + string) \<times> effect list" where
  "approveUSDT env lib io amt =
     (if \<not> truthy_string (address env) \<or> \<not> truthy_nat (chain_id env)
        then (Inl ''Wallet not connected'', [])
      else if \<not> truthy_string (usdtContractAddress env) \<or>
              \<not> truthy_string (escrowContractAddress env)
        then (Inl ''Contracts not available on this network'', [])
      else
        (let currentAllowance = fst (getCurrentAllowance env lib io);
             eff1 = snd (getCurrentAllowance env lib io);
             requiredAmount = parseFloat lib amt
         in if js_ge currentAllowance requiredAmount then (Inr ''0x0'', eff1)
            else
              (let eff2 = eff1 @
                     [WriteContractAsync (the (usdtContractAddress env)) ''approve''
                        (ApproveArgs (the (escrowContractAddress env)) maxApproval)
                        GAS_LIMITS_APPROVE]
               in case writeContractAsync_result io of
                    Inl error \<Rightarrow> (Inl (approveUSDT_catch lib error), eff2)
                  | Inr h \<Rightarrow> (Inr h, eff2 @ [SetTimeout Call_refetchAllowance 2000]))))"

subsection \<open>refreshBalances\<close>

text \<open>
  \<^verbatim>\<open>refreshBalances\<close> is created by \<^verbatim>\<open>useCallback\<close> in a render and closes over the
  values of that render: \<^verbatim>\<open>isConnected\<close>, the account and chain, and \<^verbatim>\<open>isRefreshing\<close>,
  which is a \<^verbatim>\<open>const\<close> of the render (\<^verbatim>\<open>const [isRefreshing, setIsRefreshing] =
  useState(false)\<close>). \<^verbatim>\<open>setIsRefreshing\<close> changes the state that the next render reads;
  it does not change the value a callback that exists already has closed over.
\<close>

record refresh_closure =
  rc_env :: web3_env
  rc_isConnected :: bool
  rc_isRefreshing :: bool

text \<open>The first line of \<^verbatim>\<open>refreshBalances\<close>: the call returns at once when this holds.\<close>

definition refresh_returns_early :: "refresh_closure \<Rightarrow> bool" where
  "refresh_returns_early c =
     (\<not> rc_isConnected c \<or> \<not> truthy_string (address (rc_env c)) \<or>
      \<not> isCorrectNetwork (rc_env c) \<or> rc_isRefreshing c)"

text \<open>The three refetches inside \<^verbatim>\<open>Promise.allSettled\<close>.\<close>

definition balance_reads :: "effect list" where
  "balance_reads = [RefetchUSDTBalance, RefetchAvaxBalance, RefetchAllowance]"

text \<open>
  The state that calls of \<^verbatim>\<open>refreshBalances\<close> share: the \<^verbatim>\<open>isRefreshing\<close> state of the
  component, the number of calls that are waiting for their reads to settle, and the
  reads issued so far. A call through a closure either returns early or sets the state
  and issues the three reads; when the reads of a call have settled, its \<^verbatim>\<open>finally\<close>
  block resets the state. A render hands out a closure with the state of that moment.
\<close>

record refresh_state =
  isRefreshing :: bool
  in_flight :: nat
  issued :: "effect list"

datatype refresh_event = Calls refresh_closure | Settles

fun refresh_step :: "refresh_state \<Rightarrow> refresh_event \<Rightarrow> refresh_state option" where
  "refresh_step st (Calls c) =
     (if refresh_returns_early c then Some st
      else Some (st\<lparr>isRefreshing := True, in_flight := in_flight st + 1,
                    issued := issued st @ balance_reads\<rparr>))"
| "refresh_step st Settles =
     (if in_flight st = 0 then None
      else Some (st\<lparr>isRefreshing := False, in_flight := in_flight st - 1\<rparr>))"

fun refresh_run :: "refresh_state \<Rightarrow> refresh_event list \<Rightarrow> refresh_state option" where
  "refresh_run st [] = Some st"
| "refresh_run st (ev # evs) =
     (case refresh_step st ev of None \<Rightarrow> None | Some st' \<Rightarrow> refresh_run st' evs)"

definition render_refresh :: "web3_env \<Rightarrow> bool \<Rightarrow> refresh_state \<Rightarrow> refresh_closure" where
  "render_refresh env isConnected st =
     \<lparr>rc_env = env, rc_isConnected = isConnected, rc_isRefreshing = isRefreshing st\<rparr>"

text \<open>
  The substrings that the \<^verbatim>\<open>catch\<close> block of \<^verbatim>\<open>buyTrade\<close> looks for, in its order.
\<close>

definition buyTrade_catch_substrings :: "string list" where
  "buyTrade_catch_substrings =
     [''InsufficientTokenBalance'', ''InsufficientTokenAllowance'', ''InvalidTradeId'',
      ''TradeNotFound'', ''InsufficientQuantity'', ''InvalidQuantity'',
      ''InvalidLogisticsProvider'', ''BuyerIsSeller'', ''InvalidTradeState'', ''User rejected'',
      ''user rejected'', ''Internal JSON-RPC error'', ''gas'']"

text \<open>
  A request that passes every check of \<^verbatim>\<open>buyTrade\<close> up to the gas estimate: the four
  preconditions hold, both numeric strings convert (to \<open>tid\<close> and \<open>qty\<close>), the logistics
  provider is well-formed, and the chain returns the trade details \<open>td\<close>.
\<close>

definition purchase_accepted ::
  "web3_env \<Rightarrow> js_lib \<Rightarrow> chain_io \<Rightarrow> BuyTradeParams \<Rightarrow> int \<Rightarrow> int \<Rightarrow> TradeDetails \<Rightarrow> bool" where
  "purchase_accepted env lib io params tid qty td =
     (wallet_connected env \<and> isCorrectNetwork env \<and>
      truthy_string (escrowContractAddress env) \<and> truthy_string (usdtContractAddress env) \<and>
      BigInt lib (tradeId params) = Inr tid \<and> BigInt lib (quantity params) = Inr qty \<and>
      startsWith (logisticsProvider params) ''0x'' \<and> length (logisticsProvider params) = 42 \<and>
      readContract_result io = Inr td)"

section \<open>Sample inputs\<close>

text \<open>Concrete inputs at which the theorems below are instantiated.\<close>

definition sample_float_ops :: float_ops where
  "sample_float_ops = \<lparr>fmul = (\<lambda>a b. NaN), fdiv = (\<lambda>a b. NaN)\<rparr>"

definition sample_rates :: ExchangeRates where
  "sample_rates =
     \<lparr>USDT_NATIVE = Num (1 / 40), USDT_FIAT = Num 1, NATIVE_FIAT = Num 40,
      nativeTokenSymbol = ''AVAX'', nativeTokenName = ''Avalanche'', chainId = 43113,
      lastUpdated = 0\<rparr>"

text \<open>
  An instance of \<^verbatim>\<open>BigInt(string)\<close> for the evaluations below: it agrees with the
  language on non-empty strings of decimal digits, and on strings with a character that
  no integer literal has, for which the language throws a \<^verbatim>\<open>SyntaxError\<close>. Only such
  strings are evaluated.
\<close>

definition is_digit :: "char \<Rightarrow> bool" where
  "is_digit c = (48 \<le> (of_char c :: nat) \<and> (of_char c :: nat) \<le> 57)"

definition sample_BigInt :: "string \<Rightarrow> thrown + int" where
  "sample_BigInt s =
     (if s \<noteq> [] \<and> list_all is_digit s
      then Inr (int (foldl (\<lambda>acc c. 10 * acc + (of_char c - 48)) 0 s))
      else Inl (Thrown True (Some (''Cannot convert '' @ s @ '' to a BigInt''))
                  (''SyntaxError: Cannot convert '' @ s @ '' to a BigInt'')))"

definition sample_lib :: js_lib where
  "sample_lib =
     \<lparr>BigInt = sample_BigInt,
      formatUnits = (\<lambda>v d. if v = 50000000 \<and> d = 6 then ''50''
                           else if v = 30000000 \<and> d = 6 then ''30'' else ''0''),
      parseFloat = (\<lambda>s. if s = ''5'' then Num 5 else if s = ''50'' then Num 50
                         else if s = ''30'' then Num 30 else if s = ''0'' then Num 0 else NaN),
      bigint_toString = (\<lambda>i. ''bigint''),
      decodeEventLog = (\<lambda>l. Inl (new_Error ''no matching event'')),
      parseWeb3Error = (\<lambda>e. ''parseWeb3Error'')\<rparr>"

definition sample_address :: string where
  "sample_address = ''0x1111111111111111111111111111111111111111''"

definition sample_usdt :: string where
  "sample_usdt = ''0x2222222222222222222222222222222222222222''"

definition sample_escrow :: string where
  "sample_escrow = ''0x3333333333333333333333333333333333333333''"

definition sample_provider :: string where
  "sample_provider = ''0x4444444444444444444444444444444444444444''"

text \<open>A wallet on the target chain (Avalanche Fuji, 43113) with both contracts configured.\<close>

definition sample_env :: web3_env where
  "sample_env =
     \<lparr>address = Some sample_address, chain_id = Some 43113, TARGET_CHAIN_id = 43113,
      USDT_ADDRESSES = (\<lambda>c. if c = 43113 then Some sample_usdt else None),
      ESCROW_ADDRESSES = (\<lambda>c. if c = 43113 then Some sample_escrow else None),
      usdtDecimals = Some 6\<rparr>"

text \<open>The same wallet connected to chain 1.\<close>

definition wrong_network_env :: web3_env where
  "wrong_network_env = sample_env\<lparr>chain_id := Some 1\<rparr>"

definition sample_params :: BuyTradeParams where
  "sample_params = \<lparr>tradeId = ''7'', quantity = ''3'', logisticsProvider = sample_provider\<rparr>"

text \<open>A request whose logistics provider has no \<^verbatim>\<open>0x\<close> prefix and an odd length.\<close>

definition malformed_params :: BuyTradeParams where
  "malformed_params = \<lparr>tradeId = ''7'', quantity = ''3'', logisticsProvider = ''abc''\<rparr>"

definition sample_trade :: TradeDetails where
  "sample_trade = \<lparr>productCost = 10000000, active = True, remainingQuantity = 5\<rparr>"

text \<open>
  A chain on which the trade is read, the simulation throws, the write returns a hash
  and the receipt arrives without logs.
\<close>

definition sample_io :: chain_io where
  "sample_io =
     \<lparr>readContract_result = Inr sample_trade,
      simulateContract_result = Inl (new_Error ''execution reverted''),
      writeContractAsync_result = Inr ''0xabc'',
      waitForTransactionReceipt_result = Inr \<lparr>logs = Some []\<rparr>,
      refetchAllowance_result = Inr (Some 50000000),
      Date_now = 1700000000000\<rparr>"

text \<open>
  The same chain, with a simulation that returns a gas estimate of 500000.
\<close>

definition estimate_io :: chain_io where
  "estimate_io = sample_io\<lparr>simulateContract_result := Inr (Some 500000)\<rparr>"

text \<open>The same wallet before the token decimals have been read.\<close>

definition undefined_decimals_env :: web3_env where
  "undefined_decimals_env = sample_env\<lparr>usdtDecimals := None\<rparr>"

text \<open>The same chain, with an allowance of 30 tokens.\<close>

definition small_allowance_io :: chain_io where
  "small_allowance_io = sample_io\<lparr>refetchAllowance_result := Inr (Some 30000000)\<rparr>"

text \<open>The same chain, with no allowance granted yet.\<close>

definition no_allowance_io :: chain_io where
  "no_allowance_io = sample_io\<lparr>refetchAllowance_result := Inr (Some 0)\<rparr>"

text \<open>
  The same chain, on which the receipt wait runs into its timeout: the chain library
  throws an error with this message then (followed by its version line, left out here).
\<close>

definition timeout_error :: thrown where
  \<open>timeout_error =
     new_Error ''Timed out while waiting for transaction with hash "0xabc" to be confirmed.''\<close>

definition timeout_io :: chain_io where
  "timeout_io = sample_io\<lparr>waitForTransactionReceipt_result := Inl timeout_error\<rparr>"

text \<open>
  The component before any refresh, and the closure that a render hands out then, for
  instance to the timer that a purchase sets.
\<close>

definition idle_refresh :: refresh_state where
  "idle_refresh = \<lparr>isRefreshing = False, in_flight = 0, issued = []\<rparr>"

definition idle_closure :: refresh_closure where
  "idle_closure = render_refresh sample_env True idle_refresh"

text \<open>
  For the exchange rates: a library whose division is exact on finite numbers, a hook
  that has just been mounted on Avalanche Fuji with an empty cache, a price source that
  is down, and one that answers with prices for tether and avalanche-2.
\<close>

definition sample_converter :: converter_lib where
  "sample_converter =
     \<lparr>float = \<lparr>fmul = (\<lambda>a b. case (a, b) of (Num x, Num y) \<Rightarrow> Num (x * y) | _ \<Rightarrow> NaN),
                fdiv = (\<lambda>a b. case (a, b) of (Num x, Num y) \<Rightarrow> Num (x / y) | _ \<Rightarrow> NaN)\<rparr>,
      toLowerCase = (\<lambda>s. if s = ''EUR'' then ''eur'' else if s = ''USD'' then ''usd'' else s),
      metadataToken = (\<lambda>c. None)\<rparr>"

definition empty_storage :: local_storage where
  "empty_storage = \<lparr>rates_items = (\<lambda>c. None), geo_stored = None\<rparr>"

definition mounted_hook :: hook_state where
  "mounted_hook =
     \<lparr>st_rates = defaultRates AVAX_token 43113 0, st_loading = False, st_error = None,
      st_userCountry = ''USD'', localStorage = empty_storage\<rparr>"


definition fuji_closure :: fetch_closure where
  "fuji_closure = render sample_converter (Some 43113) True mounted_hook"



definition sample_prices :: "string \<Rightarrow> (string \<Rightarrow> js_number option) option" where
  "sample_prices tokenId =
     (if tokenId = ''tether'' then
        Some (\<lambda>cur. if cur = ''usd'' then Some (Num 1) else if cur = ''eur'' then Some (Num (9 / 10))
                     else None)
      else if tokenId = ''avalanche-2'' then
        Some (\<lambda>cur. if cur = ''usd'' then Some (Num 40) else if cur = ''eur'' then Some (Num 36)
                     else None)
      else None)"

text \<open>
  A hook mounted on Avalanche Fuji (43113); \<^verbatim>\<open>fetchRates\<close> is called through the
  closure of that render; the wallet switches
  to Base Sepolia (84532) while the call is in flight; then the geo source and the price
  source answer the call.
\<close>

definition mounted_system :: system where
  "mounted_system =
     \<lparr>hook = mounted_hook, prop_chainId = Some 43113, prop_isConnected = True, tasks = []\<rparr>"

definition switch_events :: "fetch_event list" where
  "switch_events =
     [CallFetchRates fuji_closure False 1000,
      WalletChanges (Some 84532) True,
      GeoAnswers 0 (GeoOk (Some ''EUR'') (Some ''DE'')) 1100]"

definition late_answer :: fetch_event where
  "late_answer = PriceAnswers 0 (PriceJson sample_prices) 1200"

text \<open>The state after the switch, with the call for Avalanche Fuji still in flight.\<close>

definition switched_system :: system where
  "switched_system =
     \<lparr>hook =
        \<lparr>st_rates = defaultRates AVAX_token 43113 0, st_loading = True, st_error = None,
         st_userCountry = ''EUR'',
         localStorage =
           \<lparr>rates_items = (\<lambda>c. None),
            geo_stored = Some (GeoParsed \<lparr>geo_currency = ''EUR'', geo_country = ''DE'',
                                          geo_lastUpdated = 1100\<rparr>)\<rparr>\<rparr>,
      prop_chainId = Some 84532, prop_isConnected = True,
      tasks = [(fuji_closure, AwaitPrice 0 ''EUR'')]\<rparr>"


section \<open>Properties of the wallet context\<close>

subsection \<open>Auxiliary facts\<close>

lemmas env_defs =
  wallet_connected_def isCorrectNetwork_def truthy_string_def truthy_nat_def
  escrowContractAddress_def usdtContractAddress_def

lemma submitted_args_append:
  "submitted_args (xs @ ys) = submitted_args xs @ submitted_args ys"
  by (induction xs rule: submitted_args.induct) simp_all

lemma snd_case_catch:
  "snd (case r of (Inl error, eff) \<Rightarrow> (Inl (c error), eff) | (Inr tx, eff) \<Rightarrow> (Inr tx, eff)) = snd r"
  by (simp split: prod.splits sum.splits)

lemma buyTrade_accepted:
  assumes "purchase_accepted env lib io params tid qty td"
  shows "buyTrade env lib io params =
     (case buyTrade_submit env lib io params tid qty td
             [ReadContract (the (escrowContractAddress env)) ''trades'' (TradesArgs tid)] of
        (Inl error, eff) \<Rightarrow> (Inl (buyTrade_catch error), eff)
      | (Inr tx, eff) \<Rightarrow> (Inr tx, eff))"
  using assms
  by (simp add: purchase_accepted_def buyTrade_def buyTrade_try_def getTrade_def wallet_connected_def)

lemma submitted_gas_submit:
  "submitted_gas (snd (buyTrade_submit env lib io params tid qty td [ReadContract a f x])) =
     [gasEstimate (simulateContract_result io)]"
  by (simp add: buyTrade_submit_def Let_def split: sum.splits)

lemma sample_accepted:
  "purchase_accepted sample_env sample_lib sample_io sample_params 7 3 sample_trade"
  by (simp add: purchase_accepted_def sample_env_def sample_lib_def sample_io_def sample_params_def
      wallet_connected_def isCorrectNetwork_def truthy_string_def truthy_nat_def
      escrowContractAddress_def usdtContractAddress_def sample_BigInt_def is_digit_def
      sample_address_def sample_escrow_def sample_usdt_def sample_provider_def)

lemma estimate_accepted:
  "purchase_accepted sample_env sample_lib estimate_io sample_params 7 3 sample_trade"
  using sample_accepted by (simp add: purchase_accepted_def estimate_io_def sample_io_def)

lemma timeout_accepted:
  "purchase_accepted sample_env sample_lib timeout_io sample_params 7 3 sample_trade"
  using sample_accepted by (simp add: purchase_accepted_def timeout_io_def sample_io_def)

lemma timeout_message_classified:
  "buyTrade_classify (errorMessage_of timeout_error) = ''Transaction failed. Please try again.''"
  by (simp add: timeout_error_def new_Error_def errorMessage_of_def truthy_string_def
      buyTrade_classify_def)

lemma maxApproval_value: "maxApproval = 2 ^ 256 - 1"
  by (simp add: maxApproval_def)


lemma sample_connected:
  "wallet_connected sample_env" "truthy_string (usdtContractAddress sample_env)"
  "truthy_string (escrowContractAddress sample_env)"
  by (simp_all add: sample_env_def wallet_connected_def truthy_string_def truthy_nat_def
      usdtContractAddress_def escrowContractAddress_def sample_address_def sample_usdt_def
      sample_escrow_def)

subsection \<open>Preconditions of buyTrade\<close>

text \<open>
  Claim C1. \<^verbatim>\<open>buyTrade\<close> checks its preconditions in order, before any chain call: the
  wallet is connected, then the network is the target network, then the escrow contract
  and then the token contract are configured for the chain. Each failed check rejects
  with its own message and an empty list of calls, and a call is only ever issued when
  all four hold. In particular a wallet connected on the wrong network always gets
  the wrong-network error (\<^verbatim>\<open>Please switch to the correct network first\<close>) and no read,
  simulation or write is issued.
\<close>

theorem buyTrade_preconditions_in_order:
  "(\<not> wallet_connected env \<longrightarrow> buyTrade env lib io params = (Inl ''Wallet not connected'', [])) \<and>
   (wallet_connected env \<and> \<not> isCorrectNetwork env \<longrightarrow>
      buyTrade env lib io params = (Inl ''Please switch to the correct network first'', [])) \<and>
   (wallet_connected env \<and> isCorrectNetwork env \<and> \<not> truthy_string (escrowContractAddress env) \<longrightarrow>
      buyTrade env lib io params = (Inl ''Escrow contract not available on this network'', [])) \<and>
   (wallet_connected env \<and> isCorrectNetwork env \<and> truthy_string (escrowContractAddress env) \<and>
      \<not> truthy_string (usdtContractAddress env) \<longrightarrow>
      buyTrade env lib io params = (Inl ''USDT contract not available on this network'', [])) \<and>
   (snd (buyTrade env lib io params) \<noteq> [] \<longrightarrow>
      wallet_connected env \<and> isCorrectNetwork env \<and> truthy_string (escrowContractAddress env) \<and>
      truthy_string (usdtContractAddress env))"
  by (simp add: buyTrade_def wallet_connected_def split: prod.splits sum.splits)

theorem buyTrade_preconditions_in_order_witness:
  "wallet_connected wrong_network_env \<and> \<not> isCorrectNetwork wrong_network_env \<and>
   buyTrade wrong_network_env sample_lib sample_io sample_params =
     (Inl ''Please switch to the correct network first'', [])"
proof -
  have c: "wallet_connected wrong_network_env"
    by (simp add: wrong_network_env_def sample_env_def sample_address_def env_defs)
  have n: "\<not> isCorrectNetwork wrong_network_env"
    by (simp add: wrong_network_env_def sample_env_def env_defs)
  show ?thesis
    using buyTrade_preconditions_in_order
            [of wrong_network_env sample_lib sample_io sample_params] c n
    by simp
qed

subsection \<open>Gas limit of the purchase\<close>

text \<open>
  Claim C2, as stated, says that when the simulation throws and the write succeeds, a
  \<^verbatim>\<open>PaymentTransaction\<close> is returned. A write that succeeds is not enough: the
  transaction is returned only after \<^verbatim>\<open>waitForTransactionReceipt\<close> has returned. Here the
  simulation throws, the write is submitted with the fallback gas limit and returns a
  hash, the receipt wait throws, and the call rejects.
\<close>

theorem buyTrade_fallback_write_without_receipt:
  "simulateContract_result timeout_io = Inl (new_Error ''execution reverted'') \<and>
   writeContractAsync_result timeout_io = Inr ''0xabc'' \<and>
   submitted_gas (snd (buyTrade sample_env sample_lib timeout_io sample_params)) = [800000] \<and>
   fst (buyTrade sample_env sample_lib timeout_io sample_params) =
     Inl ''Transaction failed. Please try again.''"
proof -
  have "buyTrade sample_env sample_lib timeout_io sample_params =
     (case buyTrade_submit sample_env sample_lib timeout_io sample_params 7 3 sample_trade
             [ReadContract (the (escrowContractAddress sample_env)) ''trades'' (TradesArgs 7)] of
        (Inl error, eff) \<Rightarrow> (Inl (buyTrade_catch error), eff)
      | (Inr tx, eff) \<Rightarrow> (Inr tx, eff))"
    by (rule buyTrade_accepted [OF timeout_accepted])
  then have "buyTrade sample_env sample_lib timeout_io sample_params =
      (Inl (buyTrade_classify (errorMessage_of timeout_error)),
       [ReadContract (the (escrowContractAddress sample_env)) ''trades'' (TradesArgs 7),
        SimulateContract (the (escrowContractAddress sample_env)) ''buyTrade''
          (BuyTradeArgs 7 3 (logisticsProvider sample_params)
             (the (usdtContractAddress sample_env))
             (productCost sample_trade * 3) (productCost sample_trade * 3))
          (the (address sample_env)),
        WriteContractAsync (the (escrowContractAddress sample_env)) ''buyTrade''
          (BuyTradeArgs 7 3 (logisticsProvider sample_params)
             (the (usdtContractAddress sample_env))
             (productCost sample_trade * 3) (productCost sample_trade * 3))
          800000,
        WaitForTransactionReceipt ''0xabc'' 60000])"
    by (simp add: buyTrade_submit_def Let_def timeout_io_def sample_io_def buyTrade_catch_def
        gasEstimate_def GAS_LIMITS_BUY_TRADE_def)
  then show ?thesis
    by (simp add: timeout_message_classified timeout_io_def sample_io_def)
qed

text \<open>
  Claim C2, amended. For a request that passes the checks of \<^verbatim>\<open>buyTrade\<close>, exactly one write
  is submitted. When the simulation throws, its gas limit is the fallback constant
  \<^verbatim>\<open>GAS_LIMITS.BUY_TRADE\<close> = 800000; when the simulation returns a gas estimate
  (\<^verbatim>\<open>request.gas\<close> is truthy, that is present and not zero), the gas limit is the
  estimate times 120 divided by 100 in bigint arithmetic; a simulation that returns no
  estimate gets the fallback constant as well. When the simulation throws, the write
  returns a hash and the receipt arrives, a \<^verbatim>\<open>PaymentTransaction\<close> with that hash and
  status \<^verbatim>\<open>pending\<close> is returned.
\<close>

theorem buyTrade_gas_limit:
  assumes "purchase_accepted env lib io params tid qty td"
  shows "GAS_LIMITS_BUY_TRADE = 800000 \<and>
    (\<forall>e. simulateContract_result io = Inl e \<longrightarrow>
       submitted_gas (snd (buyTrade env lib io params)) = [GAS_LIMITS_BUY_TRADE]) \<and>
    (\<forall>g. simulateContract_result io = Inr (Some g) \<and> g \<noteq> 0 \<longrightarrow>
       submitted_gas (snd (buyTrade env lib io params)) = [(g * 120) sdiv 100]) \<and>
    (\<forall>g. simulateContract_result io = Inr (Some g) \<and> 0 < g \<longrightarrow>
       submitted_gas (snd (buyTrade env lib io params)) = [g * 120 div 100]) \<and>
    (simulateContract_result io = Inr None \<or> simulateContract_result io = Inr (Some 0) \<longrightarrow>
       submitted_gas (snd (buyTrade env lib io params)) = [GAS_LIMITS_BUY_TRADE]) \<and>
    (\<forall>e h r. simulateContract_result io = Inl e \<and> writeContractAsync_result io = Inr h \<and> h \<noteq> [] \<and>
       waitForTransactionReceipt_result io = Inr r \<longrightarrow>
       (\<exists>tx. fst (buyTrade env lib io params) = Inr tx \<and> hash tx = h \<and> status tx = ''pending''))"
proof -
  have gas: "submitted_gas (snd (buyTrade env lib io params)) = [gasEstimate (simulateContract_result io)]"
    by (simp add: buyTrade_accepted [OF assms] snd_case_catch submitted_gas_submit)
  have pos: "(g * 120) sdiv 100 = g * 120 div 100" if "0 < g" for g :: int
    using that by (simp add: signed_divide_int_def sgn_if)
  have ret: "\<exists>tx. fst (buyTrade env lib io params) = Inr tx \<and> hash tx = h \<and> status tx = ''pending''"
    if "writeContractAsync_result io = Inr h" "h \<noteq> []" "waitForTransactionReceipt_result io = Inr r"
    for h r
    using that by (simp add: buyTrade_accepted [OF assms] buyTrade_submit_def Let_def)
  show ?thesis
    using pos ret by (auto simp: gas gasEstimate_def truthy_bigint_def GAS_LIMITS_BUY_TRADE_def)
qed

theorem buyTrade_gas_limit_witness:
  "purchase_accepted sample_env sample_lib sample_io sample_params 7 3 sample_trade \<and>
   simulateContract_result sample_io = Inl (new_Error ''execution reverted'') \<and>
   submitted_gas (snd (buyTrade sample_env sample_lib sample_io sample_params)) = [800000] \<and>
   (\<exists>tx. fst (buyTrade sample_env sample_lib sample_io sample_params) = Inr tx \<and>
      hash tx = ''0xabc'' \<and> status tx = ''pending'') \<and>
   purchase_accepted sample_env sample_lib estimate_io sample_params 7 3 sample_trade \<and>
   simulateContract_result estimate_io = Inr (Some 500000) \<and>
   submitted_gas (snd (buyTrade sample_env sample_lib estimate_io sample_params)) = [600000]"
  using buyTrade_gas_limit [OF sample_accepted] buyTrade_gas_limit [OF estimate_accepted]
    sample_accepted estimate_accepted
  by (simp add: sample_io_def estimate_io_def)

subsection \<open>Receipt wait that throws\<close>

text \<open>
  Claim C3, as stated: when the receipt wait of a same-chain purchase runs into its
  60-second timeout, the call fails with the network-error kind (\<^verbatim>\<open>Network error. Please
  check your connection and try again\<close>). It does not: the \<^verbatim>\<open>catch\<close> block has no branch
  for a timeout, and the message of the timeout error contains none of the substrings
  it looks for, so the call fails with the generic
  \<^verbatim>\<open>Transaction failed. Please try again.\<close>
\<close>

theorem buyTrade_receipt_timeout_not_network_error:
  "fst (buyTrade sample_env sample_lib timeout_io sample_params) =
     Inl ''Transaction failed. Please try again.'' \<and>
   fst (buyTrade sample_env sample_lib timeout_io sample_params) \<noteq>
     Inl ''Network error. Please check your connection and try again''"
proof -
  have "buyTrade sample_env sample_lib timeout_io sample_params =
     (case buyTrade_submit sample_env sample_lib timeout_io sample_params 7 3 sample_trade
             [ReadContract (the (escrowContractAddress sample_env)) ''trades'' (TradesArgs 7)] of
        (Inl error, eff) \<Rightarrow> (Inl (buyTrade_catch error), eff)
      | (Inr tx, eff) \<Rightarrow> (Inr tx, eff))"
    by (rule buyTrade_accepted [OF timeout_accepted])
  then have "fst (buyTrade sample_env sample_lib timeout_io sample_params) =
      Inl (buyTrade_classify (errorMessage_of timeout_error))"
    by (simp add: buyTrade_submit_def Let_def timeout_io_def sample_io_def buyTrade_catch_def)
  then show ?thesis
    by (simp add: timeout_message_classified)
qed

text \<open>
  Claim C3, amended. When the receipt wait of an accepted purchase throws (its timeout
  is 60000 ms), the call rejects with the message that the \<^verbatim>\<open>catch\<close> block assigns to
  the thrown value: the generic \<^verbatim>\<open>Transaction failed. Please try again.\<close> when the
  message contains none of the substrings of the block, and the network-error message
  only when it contains \<^verbatim>\<open>Internal JSON-RPC error\<close>. No \<^verbatim>\<open>PaymentTransaction\<close> is
  returned, no balance refresh is scheduled, and the receipt wait is the last call.
\<close>

theorem buyTrade_receipt_wait_throws:
  assumes "purchase_accepted env lib io params tid qty td"
    and "writeContractAsync_result io = Inr h" and "h \<noteq> []"
    and "waitForTransactionReceipt_result io = Inl error"
  shows "fst (buyTrade env lib io params) = Inl (buyTrade_classify (errorMessage_of error)) \<and>
    scheduled_timers (snd (buyTrade env lib io params)) = [] \<and>
    last (snd (buyTrade env lib io params)) = WaitForTransactionReceipt h 60000 \<and>
    (buyTrade_classify (errorMessage_of error) =
        ''Network error. Please check your connection and try again'' \<longrightarrow>
       js_includes (errorMessage_of error) ''Internal JSON-RPC error'') \<and>
    ((\<forall>p \<in> set buyTrade_catch_substrings. \<not> js_includes (errorMessage_of error) p) \<longrightarrow>
       fst (buyTrade env lib io params) = Inl ''Transaction failed. Please try again.'')"
proof -
  have run: "buyTrade env lib io params =
      (Inl (buyTrade_classify (errorMessage_of error)),
       [ReadContract (the (escrowContractAddress env)) ''trades'' (TradesArgs tid),
        SimulateContract (the (escrowContractAddress env)) ''buyTrade''
          (BuyTradeArgs tid qty (logisticsProvider params) (the (usdtContractAddress env))
             (productCost td * qty) (productCost td * qty)) (the (address env)),
        WriteContractAsync (the (escrowContractAddress env)) ''buyTrade''
          (BuyTradeArgs tid qty (logisticsProvider params) (the (usdtContractAddress env))
             (productCost td * qty) (productCost td * qty))
          (gasEstimate (simulateContract_result io)),
        WaitForTransactionReceipt h 60000])"
    using assms(2-4)
    by (simp add: buyTrade_accepted [OF assms(1)] buyTrade_submit_def Let_def buyTrade_catch_def)
  have net: "js_includes m ''Internal JSON-RPC error''"
    if "buyTrade_classify m = ''Network error. Please check your connection and try again''" for m
    using that by (simp add: buyTrade_classify_def split: if_splits)
  have gen: "buyTrade_classify m = ''Transaction failed. Please try again.''"
    if "\<forall>p \<in> set buyTrade_catch_substrings. \<not> js_includes m p" for m
    using that by (simp add: buyTrade_classify_def buyTrade_catch_substrings_def)
  show ?thesis
    using net gen by (simp add: run)
qed

theorem buyTrade_receipt_wait_throws_witness:
  "purchase_accepted sample_env sample_lib timeout_io sample_params 7 3 sample_trade \<and>
   writeContractAsync_result timeout_io = Inr ''0xabc'' \<and>
   waitForTransactionReceipt_result timeout_io = Inl timeout_error \<and>
   fst (buyTrade sample_env sample_lib timeout_io sample_params) =
     Inl (buyTrade_classify (errorMessage_of timeout_error)) \<and>
   scheduled_timers (snd (buyTrade sample_env sample_lib timeout_io sample_params)) = [] \<and>
   last (snd (buyTrade sample_env sample_lib timeout_io sample_params)) =
     WaitForTransactionReceipt ''0xabc'' 60000"
proof -
  have w: "writeContractAsync_result timeout_io = Inr ''0xabc''"
    by (simp add: timeout_io_def sample_io_def)
  have r: "waitForTransactionReceipt_result timeout_io = Inl timeout_error"
    by (simp add: timeout_io_def sample_io_def)
  show ?thesis
    using buyTrade_receipt_wait_throws [OF timeout_accepted w _ r] timeout_accepted w r
    by simp
qed

subsection \<open>Malformed logistics provider\<close>

text \<open>
  Claim C4 says that a request whose logistics-provider address does not start with
  \<^verbatim>\<open>0x\<close> or is not 42 characters long fails with the \<^verbatim>\<open>InvalidLogisticsProvider\<close> kind
  and issues no chain call. What the code does: it issues no call, but the error
  \<^verbatim>\<open>Invalid logistics provider address\<close> is thrown inside the \<^verbatim>\<open>try\<close> block, and the
  \<^verbatim>\<open>catch\<close> block, which looks for the substring \<^verbatim>\<open>InvalidLogisticsProvider\<close>, turns it
  into the generic \<^verbatim>\<open>Transaction failed. Please try again.\<close> whenever the wallet checks
  pass and both numeric strings convert. The message of the invalid-provider kind,
  \<^verbatim>\<open>Invalid logistics provider selected\<close>, is not what the caller gets.
\<close>

theorem buyTrade_malformed_provider:
  assumes "\<not> startsWith (logisticsProvider params) ''0x'' \<or> length (logisticsProvider params) \<noteq> 42"
  shows "snd (buyTrade env lib io params) = [] \<and>
    (wallet_connected env \<and> isCorrectNetwork env \<and> truthy_string (escrowContractAddress env) \<and>
     truthy_string (usdtContractAddress env) \<and>
     (\<exists>tid. BigInt lib (tradeId params) = Inr tid) \<and> (\<exists>qty. BigInt lib (quantity params) = Inr qty) \<longrightarrow>
       fst (buyTrade env lib io params) = Inl ''Transaction failed. Please try again.'' \<and>
       fst (buyTrade env lib io params) \<noteq> Inl ''Invalid logistics provider selected'')"
proof -
  have c: "buyTrade_catch (new_Error ''Invalid logistics provider address'') =
      ''Transaction failed. Please try again.''"
    by (simp add: buyTrade_catch_def new_Error_def errorMessage_of_def truthy_string_def
        buyTrade_classify_def)
  have t: "snd (buyTrade_try env lib io params) = []"
    using assms by (auto simp: buyTrade_try_def split: sum.splits)
  have e: "snd (buyTrade env lib io params) = []"
    using t by (simp add: buyTrade_def snd_case_catch)
  have f: "fst (buyTrade env lib io params) = Inl ''Transaction failed. Please try again.''"
    if "wallet_connected env" "isCorrectNetwork env" "truthy_string (escrowContractAddress env)"
      "truthy_string (usdtContractAddress env)"
      "BigInt lib (tradeId params) = Inr tid" "BigInt lib (quantity params) = Inr qty" for tid qty
    using that assms by (auto simp: buyTrade_def buyTrade_try_def wallet_connected_def c)
  have g: "fst (buyTrade env lib io params) = Inl ''Transaction failed. Please try again.'' \<and>
       fst (buyTrade env lib io params) \<noteq> Inl ''Invalid logistics provider selected''"
    if h: "wallet_connected env \<and> isCorrectNetwork env \<and>
      truthy_string (escrowContractAddress env) \<and> truthy_string (usdtContractAddress env) \<and>
      (\<exists>tid. BigInt lib (tradeId params) = Inr tid) \<and>
      (\<exists>qty. BigInt lib (quantity params) = Inr qty)"
  proof -
    from h obtain tid qty where
      "BigInt lib (tradeId params) = Inr tid" "BigInt lib (quantity params) = Inr qty"
      by blast
    with h have "fst (buyTrade env lib io params) = Inl ''Transaction failed. Please try again.''"
      using f by blast
    then show ?thesis
      by simp
  qed
  show ?thesis
    using e g by blast
qed

theorem buyTrade_malformed_provider_witness:
  "\<not> startsWith (logisticsProvider malformed_params) ''0x'' \<and>
   length (logisticsProvider malformed_params) \<noteq> 42 \<and>
   wallet_connected sample_env \<and> isCorrectNetwork sample_env \<and>
   BigInt sample_lib (tradeId malformed_params) = Inr 7 \<and>
   BigInt sample_lib (quantity malformed_params) = Inr 3 \<and>
   buyTrade sample_env sample_lib sample_io malformed_params =
     (Inl ''Transaction failed. Please try again.'', [])"
proof -
  have m: "\<not> startsWith (logisticsProvider malformed_params) ''0x'' \<or>
      length (logisticsProvider malformed_params) \<noteq> 42"
    by (simp add: malformed_params_def)
  have b: "BigInt sample_lib (tradeId malformed_params) = Inr 7"
      "BigInt sample_lib (quantity malformed_params) = Inr 3"
    by (simp_all add: malformed_params_def sample_lib_def sample_BigInt_def is_digit_def)
  have p: "wallet_connected sample_env" "isCorrectNetwork sample_env"
      "truthy_string (escrowContractAddress sample_env)"
      "truthy_string (usdtContractAddress sample_env)"
    using sample_accepted by (simp_all add: purchase_accepted_def)
  show ?thesis
    using buyTrade_malformed_provider [OF m, of sample_env sample_lib sample_io] b p
    by (simp add: prod_eq_iff malformed_params_def)
qed

subsection \<open>Total cost\<close>

text \<open>
  Claim C5. \<^verbatim>\<open>buyTrade\<close> computes the total cost as the unit cost read from the chain
  times the quantity, in integer arithmetic on the token's smallest unit: the
  simulation and the write both carry \<open>productCost * quantity\<close> as token amount and as
  total, and the amount of the returned transaction is \<^verbatim>\<open>formatUnits\<close> of that integer.
  For quantity 3 and a unit cost of 10000000 the total is 30000000.
\<close>

theorem buyTrade_totalCost:
  assumes "purchase_accepted env lib io params tid qty td"
  shows "submitted_args (snd (buyTrade env lib io params)) =
      [BuyTradeArgs tid qty (logisticsProvider params) (the (usdtContractAddress env))
         (productCost td * qty) (productCost td * qty),
       BuyTradeArgs tid qty (logisticsProvider params) (the (usdtContractAddress env))
         (productCost td * qty) (productCost td * qty)] \<and>
    (\<forall>tx. fst (buyTrade env lib io params) = Inr tx \<longrightarrow>
       amount tx = formatUnits lib (productCost td * qty) (decimals_or_6 (usdtDecimals env))) \<and>
    (productCost td = 10000000 \<and> qty = 3 \<longrightarrow> productCost td * qty = 30000000)"
proof -
  have a: "submitted_args (snd (buyTrade env lib io params)) =
      [BuyTradeArgs tid qty (logisticsProvider params) (the (usdtContractAddress env))
         (productCost td * qty) (productCost td * qty),
       BuyTradeArgs tid qty (logisticsProvider params) (the (usdtContractAddress env))
         (productCost td * qty) (productCost td * qty)]"
    by (simp add: buyTrade_accepted [OF assms] snd_case_catch buyTrade_submit_def Let_def
        split: sum.splits)
  have b: "amount tx = formatUnits lib (productCost td * qty) (decimals_or_6 (usdtDecimals env))"
    if "fst (buyTrade env lib io params) = Inr tx" for tx
    using that
    by (auto simp: buyTrade_accepted [OF assms] buyTrade_submit_def Let_def
        split: sum.splits if_splits)
  show ?thesis
    using a b by simp
qed

theorem buyTrade_totalCost_witness:
  "purchase_accepted sample_env sample_lib sample_io sample_params 7 3 sample_trade \<and>
   productCost sample_trade = 10000000 \<and>
   submitted_args (snd (buyTrade sample_env sample_lib sample_io sample_params)) =
      [BuyTradeArgs 7 3 sample_provider sample_usdt 30000000 30000000,
       BuyTradeArgs 7 3 sample_provider sample_usdt 30000000 30000000]"
  using buyTrade_totalCost [OF sample_accepted] sample_accepted
  by (simp add: sample_trade_def sample_params_def sample_env_def env_defs sample_address_def)

subsection \<open>Token approval\<close>

text \<open>
  Claim C10, as stated, says that \<^verbatim>\<open>approveUSDT\<close> returns \<^verbatim>\<open>0x0\<close> without a transaction
  whenever the allowance that was fetched covers the amount. It does not when the token
  decimals have not been loaded: \<^verbatim>\<open>getCurrentAllowance\<close> returns 0 then, whatever the
  read gave. Here the read returns an allowance of 50000000 (50 tokens of 6 decimals),
  the amount is 5, the decimals are undefined, and an approval is submitted.
\<close>

theorem approveUSDT_unknown_decimals:
  "wallet_connected undefined_decimals_env \<and>
   refetchAllowance_result sample_io = Inr (Some 50000000) \<and>
   js_ge (parseFloat sample_lib (formatUnits sample_lib 50000000 6)) (parseFloat sample_lib ''5'') \<and>
   usdtDecimals undefined_decimals_env = None \<and>
   fst (approveUSDT undefined_decimals_env sample_lib sample_io ''5'') = Inr ''0xabc'' \<and>
   submitted_args (snd (approveUSDT undefined_decimals_env sample_lib sample_io ''5'')) =
     [ApproveArgs sample_escrow (2 ^ 256 - 1)]"
  by (simp add: undefined_decimals_env_def sample_env_def sample_lib_def sample_io_def
      approveUSDT_def getCurrentAllowance_def wallet_connected_def truthy_string_def
      truthy_nat_def truthy_bigint_def usdtContractAddress_def escrowContractAddress_def
      sample_address_def sample_usdt_def sample_escrow_def js_ge_def Let_def
      maxApproval_value)

text \<open>
  Claim C10, amended. For a connected wallet with both contracts configured,
  \<^verbatim>\<open>approveUSDT(amount)\<close> refetches the allowance once. The allowance it uses is
  \<^verbatim>\<open>parseFloat(formatUnits(data, decimals))\<close> when the read returns a non-zero allowance
  and the token decimals are known, and 0 when the read throws, returns no data or
  zero, or the decimals are undefined. If that number is \<^verbatim>\<open>>=\<close> \<^verbatim>\<open>parseFloat(amount)\<close>, it
  returns the hash \<^verbatim>\<open>0x0\<close> and issues nothing else; otherwise it submits one approval,
  for the largest 256-bit value \<open>2 ^ 256 - 1\<close> and not for the requested amount, with
  the gas limit \<^verbatim>\<open>GAS_LIMITS.APPROVE\<close>.
\<close>

theorem approveUSDT_allowance:
  assumes "wallet_connected env" and "truthy_string (usdtContractAddress env)"
    and "truthy_string (escrowContractAddress env)"
  shows "(\<forall>a d. refetchAllowance_result io = Inr (Some a) \<and> a \<noteq> 0 \<and> usdtDecimals env = Some d \<longrightarrow>
      (js_ge (parseFloat lib (formatUnits lib a d)) (parseFloat lib amt) \<longrightarrow>
         approveUSDT env lib io amt = (Inr ''0x0'', [RefetchAllowance])) \<and>
      (\<not> js_ge (parseFloat lib (formatUnits lib a d)) (parseFloat lib amt) \<longrightarrow>
         hd (snd (approveUSDT env lib io amt)) = RefetchAllowance \<and>
         submitted_args (snd (approveUSDT env lib io amt)) =
           [ApproveArgs (the (escrowContractAddress env)) (2 ^ 256 - 1)] \<and>
         submitted_gas (snd (approveUSDT env lib io amt)) = [GAS_LIMITS_APPROVE])) \<and>
    ((\<exists>e. refetchAllowance_result io = Inl e) \<or> refetchAllowance_result io = Inr None \<or>
     refetchAllowance_result io = Inr (Some 0) \<or> usdtDecimals env = None \<longrightarrow>
      (js_ge (Num 0) (parseFloat lib amt) \<longrightarrow>
         approveUSDT env lib io amt = (Inr ''0x0'', [RefetchAllowance])) \<and>
      (\<not> js_ge (Num 0) (parseFloat lib amt) \<longrightarrow>
         hd (snd (approveUSDT env lib io amt)) = RefetchAllowance \<and>
         submitted_args (snd (approveUSDT env lib io amt)) =
           [ApproveArgs (the (escrowContractAddress env)) (2 ^ 256 - 1)] \<and>
         submitted_gas (snd (approveUSDT env lib io amt)) = [GAS_LIMITS_APPROVE]))"
proof -
  have known: "getCurrentAllowance env lib io =
      (parseFloat lib (formatUnits lib a d), [RefetchAllowance])"
    if "refetchAllowance_result io = Inr (Some a)" "a \<noteq> 0" "usdtDecimals env = Some d" for a d
    using that assms(1,2)
    by (simp add: getCurrentAllowance_def wallet_connected_def truthy_bigint_def)
  have unknown: "getCurrentAllowance env lib io = (Num 0, [RefetchAllowance])"
    if "(\<exists>e. refetchAllowance_result io = Inl e) \<or> refetchAllowance_result io = Inr None \<or>
      refetchAllowance_result io = Inr (Some 0) \<or> usdtDecimals env = None"
    using that assms(1,2)
    by (auto simp: getCurrentAllowance_def wallet_connected_def truthy_bigint_def
        split: sum.splits)
  have decide: "(js_ge cur (parseFloat lib amt) \<longrightarrow>
         approveUSDT env lib io amt = (Inr ''0x0'', [RefetchAllowance])) \<and>
      (\<not> js_ge cur (parseFloat lib amt) \<longrightarrow>
         hd (snd (approveUSDT env lib io amt)) = RefetchAllowance \<and>
         submitted_args (snd (approveUSDT env lib io amt)) =
           [ApproveArgs (the (escrowContractAddress env)) (2 ^ 256 - 1)] \<and>
         submitted_gas (snd (approveUSDT env lib io amt)) = [GAS_LIMITS_APPROVE])"
    if "getCurrentAllowance env lib io = (cur, [RefetchAllowance])" for cur
    using that assms
    by (simp add: approveUSDT_def wallet_connected_def Let_def maxApproval_value
        split: sum.splits)
  show ?thesis
    using known unknown decide by blast
qed

theorem approveUSDT_allowance_witness:
  "wallet_connected sample_env \<and> truthy_string (usdtContractAddress sample_env) \<and>
   truthy_string (escrowContractAddress sample_env) \<and>
   refetchAllowance_result sample_io = Inr (Some 50000000) \<and> usdtDecimals sample_env = Some 6 \<and>
   js_ge (parseFloat sample_lib (formatUnits sample_lib 50000000 6)) (parseFloat sample_lib ''5'') \<and>
   approveUSDT sample_env sample_lib sample_io ''5'' = (Inr ''0x0'', [RefetchAllowance]) \<and>
   refetchAllowance_result small_allowance_io = Inr (Some 30000000) \<and>
   \<not> js_ge (parseFloat sample_lib (formatUnits sample_lib 30000000 6))
        (parseFloat sample_lib ''50'') \<and>
   submitted_args (snd (approveUSDT sample_env sample_lib small_allowance_io ''50'')) =
     [ApproveArgs sample_escrow (2 ^ 256 - 1)] \<and>
   refetchAllowance_result no_allowance_io = Inr (Some 0) \<and>
   \<not> js_ge (Num 0) (parseFloat sample_lib ''5'') \<and>
   submitted_args (snd (approveUSDT sample_env sample_lib no_allowance_io ''5'')) =
     [ApproveArgs sample_escrow (2 ^ 256 - 1)]"
proof -
  have e: "the (escrowContractAddress sample_env) = sample_escrow"
    by (simp add: escrowContractAddress_def sample_env_def truthy_nat_def)
  have r: "refetchAllowance_result sample_io = Inr (Some 50000000)"
      "refetchAllowance_result small_allowance_io = Inr (Some 30000000)"
      "refetchAllowance_result no_allowance_io = Inr (Some 0)"
      "usdtDecimals sample_env = Some 6"
    by (simp_all add: sample_io_def small_allowance_io_def no_allowance_io_def sample_env_def)
  have c: "js_ge (parseFloat sample_lib (formatUnits sample_lib 50000000 6))
        (parseFloat sample_lib ''5'')"
      "\<not> js_ge (parseFloat sample_lib (formatUnits sample_lib 30000000 6))
        (parseFloat sample_lib ''50'')"
      "\<not> js_ge (Num 0) (parseFloat sample_lib ''5'')"
    by (simp_all add: js_ge_def sample_lib_def)
  show ?thesis
    using approveUSDT_allowance [OF sample_connected, of sample_io sample_lib "''5''"]
      approveUSDT_allowance [OF sample_connected, of small_allowance_io sample_lib "''50''"]
      approveUSDT_allowance [OF sample_connected, of no_allowance_io sample_lib "''5''"]
      sample_connected r c
    by (simp add: e)
qed

subsection \<open>Concurrent balance refreshes\<close>

text \<open>
  Claim C7 says that while one \<^verbatim>\<open>refreshBalances\<close> call is in flight, every other call
  returns without reads, so that concurrent calls issue one set of reads. That holds
  for a call through a closure of a render that has seen \<^verbatim>\<open>isRefreshing\<close> set. It does
  not hold for a call through a closure that was created before: such a closure holds
  \<^verbatim>\<open>isRefreshing = false\<close> for good, and a call through it issues the three reads
  whatever the state is, also while another call is in flight. Two calls through the
  closure of one render, the second while the first is in flight, issue six reads.
\<close>

theorem refreshBalances_closure_decides:
  "(rc_isRefreshing c \<longrightarrow> refresh_step st (Calls c) = Some st) \<and>
   (rc_isConnected c \<and> truthy_string (address (rc_env c)) \<and> isCorrectNetwork (rc_env c) \<and>
    \<not> rc_isRefreshing c \<longrightarrow>
      refresh_step st (Calls c) =
        Some (st\<lparr>isRefreshing := True, in_flight := in_flight st + 1,
                 issued := issued st @ balance_reads\<rparr>))"
  by (simp add: refresh_returns_early_def)

theorem refreshBalances_closure_decides_witness:
  "rc_isConnected idle_closure \<and> truthy_string (address (rc_env idle_closure)) \<and>
   isCorrectNetwork (rc_env idle_closure) \<and> \<not> rc_isRefreshing idle_closure \<and>
   refresh_run idle_refresh [Calls idle_closure] =
     Some \<lparr>isRefreshing = True, in_flight = 1, issued = balance_reads\<rparr> \<and>
   refresh_run idle_refresh [Calls idle_closure, Calls idle_closure] =
     Some \<lparr>isRefreshing = True, in_flight = 2, issued = balance_reads @ balance_reads\<rparr>"
proof -
  have h: "rc_isConnected idle_closure" "truthy_string (address (rc_env idle_closure))"
      "isCorrectNetwork (rc_env idle_closure)" "\<not> rc_isRefreshing idle_closure"
    by (simp_all add: idle_closure_def render_refresh_def idle_refresh_def sample_env_def
        sample_address_def truthy_string_def isCorrectNetwork_def)
  have s: "refresh_step st (Calls idle_closure) =
      Some (st\<lparr>isRefreshing := True, in_flight := in_flight st + 1,
               issued := issued st @ balance_reads\<rparr>)" for st
    using refreshBalances_closure_decides [of idle_closure st] h by simp
  show ?thesis
    using h by (simp add: s idle_refresh_def del: refresh_step.simps)
qed

section \<open>Properties of the exchange rates\<close>

subsection \<open>Auxiliary facts\<close>





lemma fuji_closure_eq:
  "fuji_closure =
     \<lparr>effectiveChainId = 43113, nativeTokenInfo = AVAX_token, rates_chainId = 43113,
      rates_lastUpdated = 0, closure_userCountry = ''USD'', isUnsupportedNetwork = False\<rparr>"
  by (simp add: fuji_closure_def render_def getEffectiveChainId_def isSupportedChain_def
      truthy_nat_def SUPPORTED_CHAIN_ids_def nativeTokenInfo_of_def CHAIN_NATIVE_TOKENS_def
      mounted_hook_def defaultRates_def)

lemma step_consistent:
  assumes "step lib sys ev = Some sys'" and "cache_consistent (localStorage (hook sys))"
  shows "cache_consistent (localStorage (hook sys'))"
proof (cases ev)
  case (WalletChanges c b)
  with assms show ?thesis by auto
next
  case (CallFetchRates c f now)
  with assms show ?thesis
    by (auto simp: Let_def cache_consistent_def split: if_splits)
next
  case (GeoAnswers i resp now)
  with assms show ?thesis
    by (auto simp: cache_consistent_def geo_fetch_done_def Let_def
        split: if_splits prod.splits fetch_pc.splits geo_response.splits)
next
  case (PriceAnswers i resp now)
  have p: "chainId r = effectiveChainId c" if "price_rates lib c cur resp now = Inr r" for c cur r
    using that
    by (auto simp: price_rates_def Let_def split: price_response.splits option.splits if_splits)
  have ff: "rates_items (localStorage (fetch_failed c e now s)) = rates_items (localStorage s)"
    for c e s
    by (simp add: fetch_failed_def Let_def split: option.splits rates_item.splits)
  from assms PriceAnswers show ?thesis
    by (auto simp: cache_consistent_def price_success_def ff
        split: if_splits prod.splits fetch_pc.splits sum.splits dest: p)
next
  case (TimerFires i now)
  with assms show ?thesis
    by (auto split: if_splits prod.splits fetch_pc.splits)
qed

lemma run_consistent:
  "run lib sys evs = Some sys' \<Longrightarrow> cache_consistent (localStorage (hook sys)) \<Longrightarrow>
   cache_consistent (localStorage (hook sys'))"
proof (induction evs arbitrary: sys)
  case Nil
  then show ?case by simp
next
  case (Cons ev evs)
  then show ?case
    by (auto split: option.splits dest: step_consistent)
qed

lemma price_answer_other_chain:
  assumes "step lib sys (PriceAnswers i resp now) = Some sys'"
    and "i < length (tasks sys)" and "tasks sys ! i = (c, AwaitPrice k cur)"
    and "effectiveChainId c \<noteq> B"
  shows "rates_items (localStorage (hook sys')) B = rates_items (localStorage (hook sys)) B"
proof -
  have ff: "rates_items (localStorage (fetch_failed c e now s)) = rates_items (localStorage s)"
    for e s
    by (simp add: fetch_failed_def Let_def split: option.splits rates_item.splits)
  from assms show ?thesis
    by (auto simp: price_success_def ff split: if_splits sum.splits)
qed

lemma switch_run:
  "run sample_converter mounted_system switch_events = Some switched_system"
proof -
  have s: "\<not> fetch_skipped fuji_closure False 1000" "\<not> isUnsupportedNetwork fuji_closure"
    "closure_userCountry fuji_closure = ''USD''"
    by (simp_all add: fetch_skipped_def fuji_closure_eq)
  show ?thesis
    by (simp add: switch_events_def mounted_system_def switched_system_def s Let_def
        begin_attempt_def geo_cache_lookup_def geo_fetch_done_def mounted_hook_def
        empty_storage_def truthy_string_def)
qed

lemma late_step:
  "\<exists>sys'. step sample_converter switched_system late_answer = Some sys' \<and>
     (\<exists>r. rates_items (localStorage (hook sys')) 43113 = Some (RatesParsed r) \<and> chainId r = 43113)"
  by (simp add: late_answer_def switched_system_def fuji_closure_eq price_rates_def
      sample_prices_def AVAX_token_def truthy_number_def js_le_def js_ge_def Let_def
      sample_converter_def price_success_def remove_task_def)

subsection \<open>Failure of the rate fetch\<close>



subsection \<open>Chain scope of the persisted cache\<close>

text \<open>
  Claim C6. In every state that the hook reaches from a consistent cache, whatever the
  wallet does and however the answers to the calls in flight interleave, every
  persisted rate item carries the chain id of the key it is stored under. When a call
  that was started for chain \<open>A\<close> gets its price answer while the wallet is on another
  chain \<open>B\<close>, the item of chain \<open>B\<close> is left as it is, and the cache stays consistent:
  the key and the \<^verbatim>\<open>chainId\<close> field both come from the \<^verbatim>\<open>effectiveChainId\<close> of the closure.
\<close>

theorem rates_cache_chain_scoped:
  assumes "run lib sys0 evs = Some sys" and "cache_consistent (localStorage (hook sys0))"
  shows "cache_consistent (localStorage (hook sys)) \<and>
    (\<forall>i c k cur resp now sys' A B.
       i < length (tasks sys) \<and> tasks sys ! i = (c, AwaitPrice k cur) \<and>
       effectiveChainId c = A \<and>
       getEffectiveChainId (prop_chainId sys) (prop_isConnected sys) = B \<and> A \<noteq> B \<and>
       step lib sys (PriceAnswers i resp now) = Some sys' \<longrightarrow>
         rates_items (localStorage (hook sys')) B = rates_items (localStorage (hook sys)) B \<and>
         cache_consistent (localStorage (hook sys')))"
proof -
  have c: "cache_consistent (localStorage (hook sys))"
    using assms by (rule run_consistent)
  have p: "rates_items (localStorage (hook sys')) B = rates_items (localStorage (hook sys)) B \<and>
      cache_consistent (localStorage (hook sys'))"
    if h: "i < length (tasks sys) \<and> tasks sys ! i = (c', AwaitPrice k cur) \<and>
       effectiveChainId c' = A \<and>
       getEffectiveChainId (prop_chainId sys) (prop_isConnected sys) = B \<and> A \<noteq> B \<and>
       step lib sys (PriceAnswers i resp now) = Some sys'"
    for i c' k cur resp now sys' A B
  proof -
    from h have st: "step lib sys (PriceAnswers i resp now) = Some sys'"
      and i: "i < length (tasks sys)" and t: "tasks sys ! i = (c', AwaitPrice k cur)"
      and ne: "effectiveChainId c' \<noteq> B"
      by blast+
    show ?thesis
      using price_answer_other_chain [OF st i t ne] step_consistent [OF st c] by (rule conjI)
  qed
  show ?thesis
    using c p by blast
qed

theorem rates_cache_chain_scoped_witness:
  "run sample_converter mounted_system switch_events = Some switched_system \<and>
   cache_consistent (localStorage (hook mounted_system)) \<and>
   tasks switched_system ! 0 = (fuji_closure, AwaitPrice 0 ''EUR'') \<and>
   effectiveChainId fuji_closure = 43113 \<and>
   getEffectiveChainId (prop_chainId switched_system) (prop_isConnected switched_system) = 84532 \<and>
   (\<exists>sys'. step sample_converter switched_system late_answer = Some sys' \<and>
      (\<exists>r. rates_items (localStorage (hook sys')) 43113 = Some (RatesParsed r) \<and>
           chainId r = 43113) \<and>
      rates_items (localStorage (hook sys')) 84532 =
        rates_items (localStorage (hook switched_system)) 84532 \<and>
      cache_consistent (localStorage (hook sys')))"
proof -
  have c0: "cache_consistent (localStorage (hook mounted_system))"
    by (simp add: cache_consistent_def mounted_system_def mounted_hook_def empty_storage_def)
  have t: "0 < length (tasks switched_system)"
      "tasks switched_system ! 0 = (fuji_closure, AwaitPrice 0 ''EUR'')"
    by (simp_all add: switched_system_def)
  have a: "effectiveChainId fuji_closure = 43113"
    by (simp add: fuji_closure_eq)
  have b: "getEffectiveChainId (prop_chainId switched_system) (prop_isConnected switched_system) =
      84532"
    by (simp add: switched_system_def getEffectiveChainId_def truthy_nat_def)
  have ne: "(43113 :: nat) \<noteq> 84532"
    by simp
  obtain sys' where s: "step sample_converter switched_system late_answer = Some sys'"
    and r: "\<exists>r. rates_items (localStorage (hook sys')) 43113 = Some (RatesParsed r) \<and>
      chainId r = 43113"
    using late_step by blast
  have s': "step sample_converter switched_system (PriceAnswers 0 (PriceJson sample_prices) 1200) =
      Some sys'"
    using s by (simp only: late_answer_def)
  have "rates_items (localStorage (hook sys')) 84532 =
        rates_items (localStorage (hook switched_system)) 84532 \<and>
      cache_consistent (localStorage (hook sys'))"
    using rates_cache_chain_scoped [OF switch_run c0] t a b s' ne by blast
  then show ?thesis
    using switch_run c0 t(2) a b s r by blast
qed

text \<open>
  The \<^verbatim>\<open>rates\<close> state in memory is another matter, and no part of the claim above: the
  late answer is passed to \<^verbatim>\<open>setRates\<close> without a comparison of chain ids, so after it
  the state holds the record of chain 43113 while the wallet is on chain 84532.
\<close>

lemma late_answer_sets_rates_state:
  "\<exists>sys'. step sample_converter switched_system late_answer = Some sys' \<and>
     chainId (st_rates (hook sys')) = 43113 \<and>
     getEffectiveChainId (prop_chainId sys') (prop_isConnected sys') = 84532"
  by (simp add: late_answer_def switched_system_def fuji_closure_eq price_rates_def
      sample_prices_def AVAX_token_def truthy_number_def js_le_def js_ge_def Let_def
      sample_converter_def price_success_def remove_task_def getEffectiveChainId_def
      truthy_nat_def)

section \<open>Properties of the currency conversion\<close>

text \<open>
  Claim C9. \<open>convertPrice(amount, X, Y)\<close> returns the amount unchanged whenever \<open>X\<close>
  equals \<open>Y\<close>, for every currency and every amount (finite or not), and returns the
  amount unchanged whenever the amount is non-finite or zero, whatever the two
  currencies are. The function returns a number on every input: there is no raising
  branch.
\<close>

theorem convertPrice_identity:
  "convertPrice ops rates price X X = price \<and>
   (\<not> isFinite price \<longrightarrow> convertPrice ops rates price from to = price) \<and>
   convertPrice ops rates (Num 0) from to = Num 0"
  by (simp add: convertPrice_def)

theorem convertPrice_identity_witness:
  "convertPrice sample_float_ops sample_rates (Num 5) ''USDT'' ''USDT'' = Num 5 \<and>
   \<not> isFinite PosInfinity \<and>
   convertPrice sample_float_ops sample_rates PosInfinity ''USDT'' ''FIAT'' = PosInfinity \<and>
   convertPrice sample_float_ops sample_rates (Num 0) ''FIAT'' ''NATIVE'' = Num 0"
  using convertPrice_identity
          [where ops = sample_float_ops and rates = sample_rates and price = "Num 5"
             and X = "''USDT''" and ?from = "''FIAT''" and to = "''NATIVE''"]
        convertPrice_identity
          [where ops = sample_float_ops and rates = sample_rates and price = PosInfinity
             and X = "''USDT''" and ?from = "''USDT''" and to = "''FIAT''"]
  by simp

end
